theory Spec2Isabelle
  imports Complex_Main "HOL-Library.AList" "HOL-Library.Char_ord" "HOL-Library.List_Lexorder"
begin

section \<open>Python values, exceptions and dictionaries\<close>

text \<open>
  The exceptions the two source files can meet. The four validation classes are the ones
  declared at the end of \<^verbatim>\<open>run.py\<close>; \<open>Exception\<close> with a message is what
  \<^verbatim>\<open>lcoe_module_multiplier.py\<close> raises and also stands for any failure of a collaborator
  outside the repository slice (pandas, the workbook readers, the cost modules).
\<close>

datatype exn =
    Exception string
  | KeyError string
  | TypeError
  | ValueError
  | IndexError
  | AttributeError
  | NegativeInputError
  | TurbineNumberError
  | LargeTurbineSizeError
  | SmallTurbineSizeError

text \<open>
  A computation that may raise returns \<open>Inl\<close> of the exception. \<open>bind_r\<close> is sequential
  composition: the first raise ends the computation.
\<close>

definition bind_r :: "exn + 'a \<Rightarrow> ('a \<Rightarrow> exn + 'b) \<Rightarrow> exn + 'b" where
  "bind_r m f = (case m of Inl e \<Rightarrow> Inl e | Inr x \<Rightarrow> f x)"

section \<open>The cost-scenario brancher and the LCOE join (lcoe\_module\_multiplier.py)\<close>

text \<open>
  The numeric columns of the three tables hold the int64 or float64 cells that pandas infers
  from the csv files. What the elementwise operations do on such cells (rounding to the
  nearest double, wrap-around of int64, conversion between the two, infinities and NaN on a
  zero divisor), how a join matches and merges key cells of different types, which cells a
  \<^verbatim>\<open>groupby\<close> treats as missing and how it sorts and sums is code of pandas and numpy, not
  of this repository. A cell is therefore a value of a type parameter \<open>'c\<close>, and these
  operations are the parameters \<open>column_ops\<close> of the model:
  \<^item> \<open>int_cell\<close> and \<open>float_cell\<close>: the cell of a Python int or float literal;
  \<^item> \<open>col_mul\<close>, \<open>col_add\<close>, \<open>col_div\<close>: \<^verbatim>\<open>*\<close>, \<^verbatim>\<open>+\<close> and \<^verbatim>\<open>/\<close> of two
    columns (or a column and a scalar), cell by cell;
  \<^item> \<open>col_sum\<close>: the sum of the \<^verbatim>\<open>Cost per project\<close> cells of one group;
  \<^item> \<open>is_na\<close>: the cell is missing (NaN), so that \<^verbatim>\<open>groupby\<close> drops the row;
  \<^item> \<open>key_eq\<close>: a left and a right key cell match in \<^verbatim>\<open>merge\<close>;
    \<open>join_key\<close>: the key cell of the joined row;
  \<^item> \<open>key_less\<close>: the order in which \<^verbatim>\<open>groupby\<close> sorts the cells of a key column.
\<close>

record 'c column_ops =
  int_cell :: "int \<Rightarrow> 'c"
  float_cell :: "real \<Rightarrow> 'c"
  col_mul :: "'c \<Rightarrow> 'c \<Rightarrow> 'c"
  col_add :: "'c \<Rightarrow> 'c \<Rightarrow> 'c"
  col_div :: "'c \<Rightarrow> 'c \<Rightarrow> 'c"
  col_sum :: "real list \<Rightarrow> 'c"
  is_na :: "'c \<Rightarrow> bool"
  key_eq :: "'c \<Rightarrow> 'c \<Rightarrow> bool"
  join_key :: "'c \<Rightarrow> 'c \<Rightarrow> 'c"
  key_less :: "'c \<Rightarrow> 'c \<Rightarrow> bool"

text \<open>
  A row of the BOS table as \<open>main\<close> selects it: the eight columns of
  \<^verbatim>\<open>extended_landbosse_costs.csv\<close> that are kept. The cost, the one column the brancher
  computes on, is a float modelled by the real number it denotes.
\<close>

record 'c bos_row =
  number_of_turbines :: 'c
  turbine_rating_MW :: 'c
  hub_height_m :: 'c
  labor_cost_multiplier :: 'c
  crane_breakdown_fraction :: 'c
  rotor_diameter_m :: 'c
  cost_per_project :: real
  Module :: string

text \<open>The same row after the column \<^verbatim>\<open>Modifications\<close> has been added.\<close>

record 'c branched_row = "'c bos_row" +
  modifications :: string

text \<open>\<^verbatim>\<open>original = df.copy(); original['Modifications'] = 'Conventional'\<close>, row by row.\<close>

definition conventional :: "'c bos_row \<Rightarrow> 'c branched_row" where
  "conventional r = bos_row.extend r (branched_row.fields ''Conventional'')"

text \<open>
  The body of the inner loop: the copy of a row for one module alias. The label is the alias
  followed by \<^verbatim>\<open> 50%\<close>; the cost is halved when the row's \<^verbatim>\<open>Module\<close> is the alias
  followed by \<^verbatim>\<open>Cost\<close>.
\<close>

definition modify_row :: "string \<Rightarrow> 'c branched_row \<Rightarrow> 'c branched_row" where
  "modify_row module_alias row =
     (let module = module_alias @ ''Cost'';
          new_row = row\<lparr>modifications := module_alias @ '' 50%''\<rparr>
      in if Module new_row = module
         then new_row\<lparr>cost_per_project := cost_per_project new_row * 0.5\<rparr>
         else new_row)"

definition module_aliases :: "string list" where
  "module_aliases = [''Erection'', ''Foundation'']"

text \<open>
  The two nested loops append to \<^verbatim>\<open>modified_list\<close> alias by alias and, inside, row by row;
  the result is the original rows followed by that list.
\<close>

definition preprocess_bos_module_cost :: "'c bos_row list \<Rightarrow> 'c branched_row list" where
  "preprocess_bos_module_cost df =
     (let original = map conventional df;
          modified_list =
            concat (map (\<lambda>module_alias. map (modify_row module_alias) original) module_aliases)
      in original @ modified_list)"

text \<open>
  The energy-production and turbine-cost tables read from \<^verbatim>\<open>aep.csv\<close> and
  \<^verbatim>\<open>tcc.csv\<close>, with the columns \<open>main\<close> uses: the three join keys
  \<^verbatim>\<open>Rating [kW]\<close>, \<^verbatim>\<open>Rotor Diam [m]\<close>, \<^verbatim>\<open>Hub height [m]\<close> and the value column.
\<close>

record 'c aep_row =
  aep_Rating_kW :: 'c
  aep_Rotor_Diam_m :: 'c
  aep_Hub_height_m :: 'c
  AEP_kWh_yr :: 'c

record 'c tcc_row =
  tcc_Rating_kW :: 'c
  tcc_Rotor_Diam_m :: 'c
  tcc_Hub_height_m :: 'c
  TCC_USD_kW :: 'c

record 'c aep_tcc_row =
  at_Rating_kW :: 'c
  at_Rotor_Diam_m :: 'c
  at_Hub_height_m :: 'c
  at_AEP_kWh_yr :: 'c
  at_TCC_USD_kW :: 'c

text \<open>
  \<^verbatim>\<open>aep.merge(tcc, on=[...])\<close>: pandas' default inner join. Every pair of a left and a right
  row with matching keys gives one row, in the order of the left rows.
\<close>

definition merge_aep_tcc ::
  "'c column_ops \<Rightarrow> 'c aep_row list \<Rightarrow> 'c tcc_row list \<Rightarrow> 'c aep_tcc_row list" where
  "merge_aep_tcc ops aep tcc =
     concat (map (\<lambda>a.
       map (\<lambda>t. \<lparr>at_Rating_kW = join_key ops (aep_Rating_kW a) (tcc_Rating_kW t),
                 at_Rotor_Diam_m = join_key ops (aep_Rotor_Diam_m a) (tcc_Rotor_Diam_m t),
                 at_Hub_height_m = join_key ops (aep_Hub_height_m a) (tcc_Hub_height_m t),
                 at_AEP_kWh_yr = AEP_kWh_yr a,
                 at_TCC_USD_kW = TCC_USD_kW t\<rparr>)
           (filter (\<lambda>t. key_eq ops (aep_Rating_kW a) (tcc_Rating_kW t) \<and>
                         key_eq ops (aep_Rotor_Diam_m a) (tcc_Rotor_Diam_m t) \<and>
                         key_eq ops (aep_Hub_height_m a) (tcc_Hub_height_m t)) tcc)) aep)"

text \<open>
  The grouped BOS table. Its key is the seven columns of the \<^verbatim>\<open>groupby\<close>, in that order,
  with \<^verbatim>\<open>Rating [kW]\<close> computed as \<^verbatim>\<open>Turbine rating MW * 1000\<close> in the arithmetic of
  the column; the summed column is \<^verbatim>\<open>BOS Capex [USD]\<close>, the renamed
  \<^verbatim>\<open>Cost per project\<close>.
\<close>

type_synonym 'c bos_key = "'c \<times> 'c \<times> 'c \<times> 'c \<times> 'c \<times> 'c \<times> string"

record 'c bos_sum_row =
  bs_Rating_kW :: 'c
  bs_Rotor_Diam_m :: 'c
  bs_Number_of_turbines :: 'c
  bs_Hub_height_m :: 'c
  bs_Labor_cost_multiplier :: 'c
  bs_Crane_breakdown_fraction :: 'c
  bs_Modifications :: string
  bs_BOS_Capex_USD :: 'c

definition bos_key_of :: "'c column_ops \<Rightarrow> 'c branched_row \<Rightarrow> 'c bos_key" where
  "bos_key_of ops r =
     (col_mul ops (turbine_rating_MW r) (int_cell ops 1000), rotor_diameter_m r,
      number_of_turbines r, hub_height_m r, labor_cost_multiplier r,
      crane_breakdown_fraction r, modifications r)"

fun bos_sum_row_of :: "'c bos_key \<Rightarrow> 'c \<Rightarrow> 'c bos_sum_row" where
  "bos_sum_row_of (rating, rotor, n, hub, labor, crane, modif) capex =
     \<lparr>bs_Rating_kW = rating, bs_Rotor_Diam_m = rotor, bs_Number_of_turbines = n,
      bs_Hub_height_m = hub, bs_Labor_cost_multiplier = labor,
      bs_Crane_breakdown_fraction = crane, bs_Modifications = modif,
      bs_BOS_Capex_USD = capex\<rparr>"

text \<open>
  \<^verbatim>\<open>groupby\<close> leaves out every row that has a missing cell in a key column (its default
  \<^verbatim>\<open>dropna=True\<close>); the label in \<^verbatim>\<open>Modifications\<close> is a string the brancher wrote and is
  never missing.
\<close>

fun has_na_key :: "'c column_ops \<Rightarrow> 'c bos_key \<Rightarrow> bool" where
  "has_na_key ops (rating, rotor, n, hub, labor, crane, modif) =
     (is_na ops rating \<or> is_na ops rotor \<or> is_na ops n \<or> is_na ops hub \<or> is_na ops labor \<or>
      is_na ops crane)"

text \<open>
  The group keys come out in ascending order, column after column (pandas sorts group keys,
  \<^verbatim>\<open>sort=True\<close>): the numeric columns in the order of their cells, the labels as strings.
\<close>

fun bos_key_less :: "'c column_ops \<Rightarrow> 'c bos_key \<Rightarrow> 'c bos_key \<Rightarrow> bool" where
  "bos_key_less ops (a1, a2, a3, a4, a5, a6, a7) (b1, b2, b3, b4, b5, b6, b7) =
     (key_less ops a1 b1 \<or> a1 = b1 \<and>
     (key_less ops a2 b2 \<or> a2 = b2 \<and>
     (key_less ops a3 b3 \<or> a3 = b3 \<and>
     (key_less ops a4 b4 \<or> a4 = b4 \<and>
     (key_less ops a5 b5 \<or> a5 = b5 \<and>
     (key_less ops a6 b6 \<or> a6 = b6 \<and> a7 < b7))))))"

fun insert_key :: "('k \<Rightarrow> 'k \<Rightarrow> bool) \<Rightarrow> 'k \<Rightarrow> 'k list \<Rightarrow> 'k list" where
  "insert_key lt k [] = [k]"
| "insert_key lt k (x # xs) = (if lt x k then x # insert_key lt k xs else k # x # xs)"

definition sort_keys :: "('k \<Rightarrow> 'k \<Rightarrow> bool) \<Rightarrow> 'k list \<Rightarrow> 'k list" where
  "sort_keys lt ks = foldr (insert_key lt) ks []"

text \<open>
  \<^verbatim>\<open>bos.groupby([...]).sum().reset_index()\<close>: one row for each key that occurs among the
  rows without a missing key cell, the keys in ascending order, the cost summed over the
  rows of the group.
\<close>

definition groupby_sum :: "'c column_ops \<Rightarrow> 'c branched_row list \<Rightarrow> 'c bos_sum_row list" where
  "groupby_sum ops bos =
     (let kept = filter (\<lambda>r. \<not> has_na_key ops (bos_key_of ops r)) bos
      in map (\<lambda>k. bos_sum_row_of k
                    (col_sum ops (map cost_per_project
                                    (filter (\<lambda>r. bos_key_of ops r = k) kept))))
             (sort_keys (bos_key_less ops) (remdups (map (bos_key_of ops) kept))))"

text \<open>
  \<^verbatim>\<open>aep_tcc.merge(bos_sum, on=['Rating [kW]', 'Hub height [m]'])\<close>: the second inner join,
  as pairs of the rows that were joined.
\<close>

definition merge_bos_sum ::
  "'c column_ops \<Rightarrow> 'c aep_tcc_row list \<Rightarrow> 'c bos_sum_row list \<Rightarrow>
   ('c aep_tcc_row \<times> 'c bos_sum_row) list" where
  "merge_bos_sum ops aep_tcc bos_sum =
     concat (map (\<lambda>a.
       map (\<lambda>b. (a, b))
           (filter (\<lambda>b. key_eq ops (at_Rating_kW a) (bs_Rating_kW b) \<and>
                         key_eq ops (at_Hub_height_m a) (bs_Hub_height_m b)) bos_sum)) aep_tcc)"

text \<open>
  A row of the LCOE table: the two rows it was joined from (which carry the columns the
  join copies), the two key columns of the join, and the five columns \<open>main\<close> adds.
\<close>

record 'c lcoe_row =
  lc_aep_tcc :: "'c aep_tcc_row"
  lc_bos_sum :: "'c bos_sum_row"
  lc_Rating_kW :: 'c
  lc_Hub_height_m :: 'c
  FCR_per_yr :: 'c
  Opex_USD_kW_yr :: 'c
  Total_Opex_USD :: 'c
  Turbine_Capex_USD :: 'c
  LCOE_USD_kWh :: 'c

text \<open>
  The column assignments of \<open>main\<close> after the joins (lines 80 to 88), for one joined row.
  Every \<^verbatim>\<open>*\<close>, \<^verbatim>\<open>+\<close> and \<^verbatim>\<open>/\<close> is the operation of the columns, in the order the
  source writes them; nothing is raised on a zero divisor, the cell is what \<open>col_div\<close> gives.
\<close>

definition lcoe_columns ::
  "'c column_ops \<Rightarrow> 'c aep_tcc_row \<times> 'c bos_sum_row \<Rightarrow> 'c lcoe_row" where
  "lcoe_columns ops ab =
     (let a = fst ab; b = snd ab;
          rating = join_key ops (at_Rating_kW a) (bs_Rating_kW b);
          hub = join_key ops (at_Hub_height_m a) (bs_Hub_height_m b);
          fcr = float_cell ops 0.079;
          opex = float_cell ops 52.0;
          total_opex = col_mul ops (col_mul ops opex rating) (bs_Number_of_turbines b);
          turbine_capex =
            col_mul ops (col_mul ops (at_TCC_USD_kW a) rating) (bs_Number_of_turbines b);
          capex_times_fcr = col_mul ops (col_add ops (bs_BOS_Capex_USD b) turbine_capex) fcr;
          aep_all_turbines = col_mul ops (at_AEP_kWh_yr a) (bs_Number_of_turbines b)
      in \<lparr>lc_aep_tcc = a, lc_bos_sum = b, lc_Rating_kW = rating, lc_Hub_height_m = hub,
          FCR_per_yr = fcr, Opex_USD_kW_yr = opex,
          Total_Opex_USD = total_opex, Turbine_Capex_USD = turbine_capex,
          LCOE_USD_kWh = col_div ops (col_add ops capex_times_fcr total_opex) aep_all_turbines\<rparr>)"

text \<open>
  \<open>main\<close>, from the three tables it reads to the table it writes to
  \<^verbatim>\<open>lcoe_analysis.csv\<close>. The two \<^verbatim>\<open>raise Exception(...)\<close> are the \<open>Inl\<close> results; the
  second test is on \<^verbatim>\<open>len(bos_sum)\<close>, after the second join has been computed.
\<close>

definition main ::
  "'c column_ops \<Rightarrow> 'c aep_row list \<Rightarrow> 'c tcc_row list \<Rightarrow> 'c bos_row list \<Rightarrow>
   exn + 'c lcoe_row list" where
  "main ops aep tcc bos0 =
     (let bos = preprocess_bos_module_cost bos0;
          bos_sum = groupby_sum ops bos;
          aep_tcc = merge_aep_tcc ops aep tcc
      in if length aep_tcc = 0 then Inl (Exception ''aep_tcc merge is empty'')
         else
           let lcoe = merge_bos_sum ops aep_tcc bos_sum
           in if length bos_sum = 0 then Inl (Exception ''bos_sum is empty.'')
              else Inr (map (lcoe_columns ops) lcoe))"

section \<open>The scenario run (landbosse\_api/run.py)\<close>

subsection \<open>Values and dictionaries\<close>

text \<open>
  The Python values that occur in the input dictionary of the caller, in the master input
  dictionary, in the output dictionary of the cost modules and in the results. A float is
  modelled by the real number it denotes. \<open>PObj\<close> is a handle on an object of a collaborator
  (a data frame of the project workbook, a weather window) that \<open>run_landbosse\<close> only
  passes on.
\<close>

datatype pyval =
    PBool bool
  | PInt int
  | PFloat real
  | PStr string
  | PList "pyval list"
  | PDict "(string \<times> pyval) list"
  | PExc exn
  | PObj nat

text \<open>
  A dictionary keeps its keys in insertion order: assigning to a key that is present
  replaces the value in place, assigning to a new key appends it. This is
  \<^const>\<open>AList.update\<close>.
\<close>

type_synonym dict = "(string \<times> pyval) list"

definition dict_set :: "dict \<Rightarrow> string \<Rightarrow> pyval \<Rightarrow> dict" where
  "dict_set d k v = AList.update k v d"

definition dict_get :: "dict \<Rightarrow> string \<Rightarrow> exn + pyval" where
  "dict_get d k = (case map_of d k of None \<Rightarrow> Inl (KeyError k) | Some v \<Rightarrow> Inr v)"

definition dict_has :: "dict \<Rightarrow> string \<Rightarrow> bool" where
  "dict_has d k = (map_of d k \<noteq> None)"

text \<open>
  Ordering comparison with a number literal. Numbers compare by value (a bool as 0 or 1);
  for every other value Python raises \<^verbatim>\<open>TypeError\<close>, and so is a handle taken to do.
\<close>

fun py_num :: "pyval \<Rightarrow> real option" where
  "py_num (PBool b) = Some (if b then 1 else 0)"
| "py_num (PInt i) = Some (real_of_int i)"
| "py_num (PFloat r) = Some r"
| "py_num (PStr s) = None"
| "py_num (PList l) = None"
| "py_num (PDict d) = None"
| "py_num (PExc e) = None"
| "py_num (PObj n) = None"

definition py_gt :: "pyval \<Rightarrow> real \<Rightarrow> exn + bool" where
  "py_gt v c = (case py_num v of None \<Rightarrow> Inl TypeError | Some x \<Rightarrow> Inr (c < x))"

definition py_lt :: "pyval \<Rightarrow> real \<Rightarrow> exn + bool" where
  "py_lt v c = (case py_num v of None \<Rightarrow> Inl TypeError | Some x \<Rightarrow> Inr (x < c))"

text \<open>
  \<^verbatim>\<open>(type(value) == int or type(value) == float) and value < 0\<close>. The type of a bool is
  not \<^verbatim>\<open>int\<close>, so a bool is never tested.
\<close>

fun negative_number :: "pyval \<Rightarrow> bool" where
  "negative_number (PInt i) = (i < 0)"
| "negative_number (PFloat r) = (r < 0)"
| "negative_number (PBool b) = False"
| "negative_number (PStr s) = False"
| "negative_number (PList l) = False"
| "negative_number (PDict d) = False"
| "negative_number (PExc e) = False"
| "negative_number (PObj n) = False"

text \<open>Truth value of an object in a condition.\<close>

fun truthy :: "pyval \<Rightarrow> bool" where
  "truthy (PBool b) = b"
| "truthy (PInt i) = (i \<noteq> 0)"
| "truthy (PFloat r) = (r \<noteq> 0)"
| "truthy (PStr s) = (s \<noteq> [])"
| "truthy (PList l) = (l \<noteq> [])"
| "truthy (PDict d) = (d \<noteq> [])"
| "truthy (PExc e) = True"
| "truthy (PObj n) = True"

subsection \<open>Collaborators\<close>

text \<open>
  A weather table: its columns in order, each a label and its cells. The index of a frame
  is not represented, rows are positions.
\<close>

type_synonym frame = "(pyval \<times> pyval list) list"

text \<open>
  What \<open>run_landbosse\<close> calls and this slice of the repository does not contain: the
  workbook reader, the csv reader, the weather-window reader, the turbine scaling functions,
  the module manager, and Python's \<^verbatim>\<open>str\<close> and \<^verbatim>\<open>strftime\<close>. Each is a parameter; each
  call may raise.
\<close>

record env =
  input_output_path :: string
  apply_labor_multiplier_to_project_data_dict :: "pyval \<Rightarrow> exn + unit"
  strftime :: "nat \<Rightarrow> string"
  pd_read_csv :: "pyval \<Rightarrow> exn + frame"
  read_weather_window :: "frame \<Rightarrow> exn + pyval"
  nacelle_mass :: "pyval \<Rightarrow> exn + pyval"
  edit_nacelle_info :: "pyval \<Rightarrow> pyval \<Rightarrow> pyval \<Rightarrow> exn + pyval"
  hub_mass :: "pyval \<Rightarrow> exn + pyval"
  edit_hub_info :: "pyval \<Rightarrow> pyval \<Rightarrow> pyval \<Rightarrow> exn + pyval"
  blade_mass_ton :: "pyval \<Rightarrow> exn + pyval"
  edit_blade_info :: "pyval \<Rightarrow> pyval \<Rightarrow> pyval \<Rightarrow> pyval \<Rightarrow> exn + pyval"
  tower_mass :: "pyval \<Rightarrow> pyval \<Rightarrow> exn + pyval"
  tower_specs :: "pyval \<Rightarrow> pyval \<Rightarrow> exn + pyval \<times> pyval"
  edit_tower_sections :: "pyval \<Rightarrow> pyval \<Rightarrow> pyval \<Rightarrow> pyval \<Rightarrow> exn + pyval"
  component_reset_index :: "pyval \<Rightarrow> exn + pyval"
  execute_landbosse :: "dict \<Rightarrow> dict \<Rightarrow> string \<Rightarrow> exn + dict \<times> dict"
  str_of :: "pyval \<Rightarrow> string"

text \<open>\<^verbatim>\<open>str(value)\<close>: a string is itself, anything else is rendered by Python.\<close>

definition py_str :: "env \<Rightarrow> pyval \<Rightarrow> string" where
  "py_str env v = (case v of PStr s \<Rightarrow> s | _ \<Rightarrow> str_of env v)"

subsection \<open>Override and validation (lines 181 to 229)\<close>

text \<open>
  \<^verbatim>\<open>master_input_dict['error'][kind] = msg\<close>. The value under \<^verbatim>\<open>'error'\<close> is the
  dictionary made at line 173 unless an override has replaced it; item assignment on a
  value that is not a dictionary raises.
\<close>

definition record_error :: "dict \<Rightarrow> string \<Rightarrow> pyval \<Rightarrow> exn + dict" where
  "record_error master kind msg =
     (case map_of master ''error'' of
        None \<Rightarrow> Inl (KeyError ''error'')
      | Some (PDict errs) \<Rightarrow> Inr (dict_set master ''error'' (PDict (dict_set errs kind msg)))
      | Some _ \<Rightarrow> Inl TypeError)"

text \<open>
  The loop of lines 182 to 184, inside its \<^verbatim>\<open>try\<close>: the \<^verbatim>\<open>raise\<close> leaves the loop at
  the first negative value, and \<^verbatim>\<open>key\<close> is then the key of that item. The result is that
  key, or \<open>None\<close> when the loop ends without raising.
\<close>

fun first_negative :: "dict \<Rightarrow> string option" where
  "first_negative [] = None"
| "first_negative ((key, v) # items) =
     (if negative_number v then Some key else first_negative items)"

definition negative_input_msg :: "string \<Rightarrow> pyval" where
  "negative_input_msg key =
     PStr (''User entered a negative value for '' @ key @ ''. This is an invalid entry'')"

definition check_negative_inputs :: "dict \<Rightarrow> dict \<Rightarrow> exn + dict" where
  "check_negative_inputs sam_input_dict master =
     (case first_negative sam_input_dict of
        None \<Rightarrow> Inr master
      | Some key \<Rightarrow> record_error master ''NegativeInputError'' (negative_input_msg key))"

text \<open>
  The loop of lines 192 to 196 over the items of the caller's dictionary: every key but
  \<^verbatim>\<open>weather_file_path\<close> is assigned in the master dictionary.
\<close>

fun override_inputs :: "dict \<Rightarrow> dict \<Rightarrow> dict \<Rightarrow> exn + dict" where
  "override_inputs [] sam_input_dict master = Inr master"
| "override_inputs ((key, uu) # items) sam_input_dict master =
     (if key = ''weather_file_path'' then override_inputs items sam_input_dict master
      else bind_r (dict_get sam_input_dict key)
             (\<lambda>v. override_inputs items sam_input_dict (dict_set master key v)))"

text \<open>Lines 200 and 201.\<close>

definition update_labor_multiplier :: "env \<Rightarrow> dict \<Rightarrow> exn + dict" where
  "update_labor_multiplier env master =
     bind_r (dict_get master ''labor_cost_multiplier'') (\<lambda>labor_cost_multiplier.
     bind_r (apply_labor_multiplier_to_project_data_dict env labor_cost_multiplier) (\<lambda>uu.
     Inr master))"

definition turbine_number_msg :: pyval where
  "turbine_number_msg =
     PStr (''User selected less than 10 turbines. LandBOSSE currently'' @
           '' provides BOS estimates for 10 or greater number of turbines'' @
           '' in a utility scale project.'')"

text \<open>Lines 204 to 212. Only \<^verbatim>\<open>TurbineNumberError\<close> is caught.\<close>

definition check_num_turbines :: "dict \<Rightarrow> dict \<Rightarrow> exn + dict" where
  "check_num_turbines sam_input_dict master =
     bind_r (dict_get sam_input_dict ''num_turbines'') (\<lambda>n.
     bind_r (py_gt n 10) (\<lambda>more_than_10.
       if more_than_10 then Inr (dict_set master ''num_turbines'' n)
       else record_error master ''TurbineNumberError'' turbine_number_msg))"

definition large_turbine_msg :: pyval where
  "large_turbine_msg =
     PStr (''User selected turbine of rating greater than 8 MW. '' @
           ''LandBOSSE provides reasonable results for turbines '' @
           ''in range of 1-8 MW rating for now.'')"

definition small_turbine_msg :: pyval where
  "small_turbine_msg =
     PStr (''User selected turbine of rating lesser than 1 MW. '' @
           ''LandBOSSE provides reasonable results for turbines '' @
           ''in range of 1-8 MW rating for now.'')"

text \<open>Lines 215 to 229.\<close>

definition check_turbine_rating :: "dict \<Rightarrow> dict \<Rightarrow> exn + dict" where
  "check_turbine_rating sam_input_dict master =
     bind_r (dict_get sam_input_dict ''turbine_rating_MW'') (\<lambda>rating.
     bind_r (py_gt rating 8) (\<lambda>too_large.
       if too_large then record_error master ''LargeTurbineSizeError'' large_turbine_msg
       else
         bind_r (py_lt rating 1) (\<lambda>too_small.
           if too_small then record_error master ''SmallTurbineSizeError'' small_turbine_msg
           else Inr (dict_set master ''turbine_rating_MW'' rating))))"

text \<open>
  The override-and-validation stage. \<open>master0\<close> is the master input dictionary as
  \<^verbatim>\<open>create_master_input_dictionary\<close> returned it for the last project row; line 173 puts
  an empty error map into it.
\<close>

definition validation_stage :: "env \<Rightarrow> dict \<Rightarrow> dict \<Rightarrow> exn + dict" where
  "validation_stage env master0 sam_input_dict =
     bind_r (check_negative_inputs sam_input_dict (dict_set master0 ''error'' (PDict []))) (\<lambda>m1.
     bind_r (override_inputs sam_input_dict sam_input_dict m1) (\<lambda>m2.
     bind_r (update_labor_multiplier env m2) (\<lambda>m3.
     bind_r (check_num_turbines sam_input_dict m3) (\<lambda>m4.
     check_turbine_rating sam_input_dict m4))))"

subsection \<open>Weather window (lines 233 to 262)\<close>

text \<open>
  A \<^verbatim>\<open>datetime\<close> is counted in hours from 2011-12-31 00:00, the \<^verbatim>\<open>start_date\<close>;
  \<^verbatim>\<open>end_date\<close>, 2012-12-30 00:00, is 365 days later, 2012 being a leap year.
\<close>

definition start_date :: nat where
  "start_date = 0"

definition end_date :: nat where
  "end_date = 365 * 24"

text \<open>The generator \<open>daterange\<close>, as the list of what it yields; \<^verbatim>\<open>delta\<close> is one hour.\<close>

function daterange :: "nat \<Rightarrow> nat \<Rightarrow> nat list" where
  "daterange start_d end_d =
     (if start_d < end_d then start_d # daterange (start_d + 1) end_d else [])"
  by pat_completeness auto
termination
  by (relation "measure (\<lambda>(start_d, end_d). end_d - start_d)") auto

declare daterange.simps [simp del]

definition default_date_time :: "env \<Rightarrow> pyval list" where
  "default_date_time env =
     map (\<lambda>single_date. PStr (strftime env single_date)) (daterange start_date end_date)"

text \<open>
  \<open>read_weather_data\<close>: the csv reader, called with \<^verbatim>\<open>usecols=[0, 1, 2, 3, 4]\<close>.
\<close>

definition read_weather_data :: "env \<Rightarrow> pyval \<Rightarrow> exn + frame" where
  "read_weather_data env file_path = pd_read_csv env file_path"

text \<open>
  The pandas operations of the stage on this representation. \<^verbatim>\<open>insert\<close> raises
  \<^verbatim>\<open>ValueError\<close> when the label is already a column and when the number of values is not
  the number of rows; \<^verbatim>\<open>columns[i]\<close> raises \<^verbatim>\<open>IndexError\<close> beyond the last column;
  selecting a label that is no column raises \<^verbatim>\<open>KeyError\<close>.
\<close>

definition df_rows :: "frame \<Rightarrow> nat" where
  "df_rows df = (case df of [] \<Rightarrow> 0 | c # cs \<Rightarrow> length (snd c))"

definition df_reset_index :: "frame \<Rightarrow> frame" where
  "df_reset_index df = df"

definition df_insert_first :: "frame \<Rightarrow> pyval \<Rightarrow> pyval list \<Rightarrow> exn + frame" where
  "df_insert_first df column_label values =
     (if column_label \<in> set (map fst df) then Inl ValueError
      else if length values \<noteq> df_rows df then Inl ValueError
      else Inr ((column_label, values) # df))"

definition df_column_name :: "frame \<Rightarrow> nat \<Rightarrow> exn + pyval" where
  "df_column_name df i = (if i < length df then Inr (fst (df ! i)) else Inl IndexError)"

definition df_rename :: "frame \<Rightarrow> (pyval \<times> string) list \<Rightarrow> frame" where
  "df_rename df renamed_columns =
     map (\<lambda>c. (case map_of renamed_columns (fst c) of
                  None \<Rightarrow> c
                | Some new_name \<Rightarrow> (PStr new_name, snd c))) df"

fun df_select :: "frame \<Rightarrow> string list \<Rightarrow> exn + frame" where
  "df_select df [] = Inr []"
| "df_select df (name # names) =
     (case filter (\<lambda>c. fst c = PStr name) df of
        [] \<Rightarrow> Inl (KeyError name)
      | found \<Rightarrow> bind_r (df_select df names) (\<lambda>others. Inr (found @ others)))"

text \<open>
  Lines 241 to 245, the first statement of the \<^verbatim>\<open>try\<close>: the table is read from the
  caller's path when the caller gave one, from the packaged file otherwise.
\<close>

definition read_weather_input :: "env \<Rightarrow> dict \<Rightarrow> exn + frame" where
  "read_weather_input env sam_input_dict =
     (if dict_has sam_input_dict ''weather_file_path''
      then bind_r (dict_get sam_input_dict ''weather_file_path'') (read_weather_data env)
      else read_weather_data env
             (PStr (input_output_path env @ ''/project_data/az_rolling.srw'')))"

text \<open>The body of the \<^verbatim>\<open>try\<close> of lines 241 to 260.\<close>

definition weather_try :: "env \<Rightarrow> dict \<Rightarrow> dict \<Rightarrow> exn + dict" where
  "weather_try env sam_input_dict master =
     bind_r (read_weather_input env sam_input_dict)
       (\<lambda>weather_window_input_df.
     bind_r (df_insert_first (df_reset_index weather_window_input_df) (PStr ''time'')
               (default_date_time env)) (\<lambda>weather_window_input_df.
     bind_r (df_column_name weather_window_input_df 0) (\<lambda>c0.
     bind_r (df_column_name weather_window_input_df 1) (\<lambda>c1.
     bind_r (df_column_name weather_window_input_df 2) (\<lambda>c2.
     bind_r (df_column_name weather_window_input_df 3) (\<lambda>c3.
     bind_r (df_column_name weather_window_input_df 4) (\<lambda>c4.
       let renamed_columns =
             AList.update c4 ''Speed m per s''
               (AList.update c3 ''Direction deg''
                 (AList.update c2 ''Pressure atm''
                   (AList.update c1 ''Temp C''
                     (AList.update c0 ''Date UTC'' []))));
           weather_data = df_reset_index (df_rename weather_window_input_df renamed_columns)
       in bind_r (df_select weather_data (map snd renamed_columns)) (\<lambda>weather_data.
          bind_r (read_weather_window env weather_data) (\<lambda>weather_window.
          Inr (dict_set master ''weather_window'' weather_window))))))))))"

text \<open>
  The \<^verbatim>\<open>try\<close> with its handler \<^verbatim>\<open>except Exception as error\<close>, which stores the exception
  object under \<^verbatim>\<open>'Weather_Data'\<close>.
\<close>

definition weather_stage :: "env \<Rightarrow> dict \<Rightarrow> dict \<Rightarrow> exn + dict" where
  "weather_stage env sam_input_dict master =
     (case weather_try env sam_input_dict master of
        Inl error \<Rightarrow> record_error master ''Weather_Data'' (PExc error)
      | Inr master' \<Rightarrow> Inr master')"

subsection \<open>Component table (lines 272 to 302)\<close>

definition refactor_nacelle :: "env \<Rightarrow> dict \<Rightarrow> exn + dict" where
  "refactor_nacelle env master =
     bind_r (dict_get master ''turbine_rating_MW'') (\<lambda>rating.
     bind_r (nacelle_mass env rating) (\<lambda>nacelle_mass_ton.
     bind_r (dict_get master ''component_data'') (\<lambda>component_data.
     bind_r (dict_get master ''hub_height_meters'') (\<lambda>hub_height.
     bind_r (edit_nacelle_info env component_data nacelle_mass_ton hub_height) (\<lambda>edited.
     bind_r (component_reset_index env edited) (\<lambda>reindexed.
     Inr (dict_set (dict_set master ''component_data'' edited) ''component_data'' reindexed)))))))"

definition refactor_hub :: "env \<Rightarrow> dict \<Rightarrow> exn + dict" where
  "refactor_hub env master =
     bind_r (dict_get master ''turbine_rating_MW'') (\<lambda>rating.
     bind_r (hub_mass env rating) (\<lambda>hub_mass_ton.
     bind_r (dict_get master ''component_data'') (\<lambda>component_data.
     bind_r (dict_get master ''hub_height_meters'') (\<lambda>hub_height.
     bind_r (edit_hub_info env component_data hub_mass_ton hub_height) (\<lambda>edited.
     bind_r (component_reset_index env edited) (\<lambda>reindexed.
     Inr (dict_set (dict_set master ''component_data'' edited) ''component_data'' reindexed)))))))"

definition refactor_blades :: "env \<Rightarrow> dict \<Rightarrow> exn + dict" where
  "refactor_blades env master =
     bind_r (dict_get master ''rotor_diameter_m'') (\<lambda>rotor_diameter.
     bind_r (blade_mass_ton env rotor_diameter) (\<lambda>blade_mass.
     bind_r (dict_get master ''component_data'') (\<lambda>component_data.
     bind_r (dict_get master ''hub_height_meters'') (\<lambda>hub_height.
     bind_r (dict_get master ''rotor_diameter_m'') (\<lambda>rotor_diameter'.
     bind_r (edit_blade_info env component_data blade_mass hub_height rotor_diameter') (\<lambda>edited.
     bind_r (component_reset_index env edited) (\<lambda>reindexed.
     Inr (dict_set (dict_set master ''component_data'' edited) ''component_data'' reindexed))))))))"

definition refactor_tower :: "env \<Rightarrow> dict \<Rightarrow> exn + dict" where
  "refactor_tower env master =
     bind_r (dict_get master ''turbine_rating_MW'') (\<lambda>rating.
     bind_r (dict_get master ''hub_height_meters'') (\<lambda>hub_height.
     bind_r (tower_mass env rating hub_height) (\<lambda>tower_mass_tonne.
     bind_r (dict_get master ''hub_height_meters'') (\<lambda>hub_height'.
     bind_r (tower_specs env hub_height' tower_mass_tonne) (\<lambda>specs.
     bind_r (dict_get master ''component_data'') (\<lambda>component_data.
     bind_r (edit_tower_sections env component_data (fst specs) tower_mass_tonne (snd specs))
       (\<lambda>edited.
     bind_r (component_reset_index env edited) (\<lambda>reindexed.
     Inr (dict_set (dict_set master ''component_data'' edited) ''component_data'' reindexed)))))))))"

definition refactor_components :: "env \<Rightarrow> dict \<Rightarrow> exn + dict" where
  "refactor_components env master =
     bind_r (refactor_nacelle env master) (\<lambda>m1.
     bind_r (refactor_hub env m1) (\<lambda>m2.
     bind_r (refactor_blades env m2) (\<lambda>m3.
     refactor_tower env m3)))"

subsection \<open>Results (lines 314 to 377)\<close>

text \<open>A run of assignments \<^verbatim>\<open>results[r] = output_dict[o]\<close>, in order.\<close>

fun copy_outputs :: "(string \<times> string) list \<Rightarrow> dict \<Rightarrow> dict \<Rightarrow> exn + dict" where
  "copy_outputs [] output_dict results = Inr results"
| "copy_outputs ((r, o_key) # rest) output_dict results =
     bind_r (dict_get output_dict o_key)
       (\<lambda>v. copy_outputs rest output_dict (dict_set results r v))"

definition management_and_development_keys :: "(string \<times> string) list" where
  "management_and_development_keys =
     [(''total_bos_cost'', ''project_value_usd''),
      (''total_management_cost'', ''total_management_cost''),
      (''insurance_usd'', ''insurance_usd''),
      (''construction_permitting_usd'', ''construction_permitting_usd''),
      (''project_management_usd'', ''project_management_usd''),
      (''bonding_usd'', ''bonding_usd''),
      (''markup_contingency_usd'', ''markup_contingency_usd''),
      (''engineering_usd'', ''engineering_usd''),
      (''site_facility_usd'', ''site_facility_usd''),
      (''total_management_cost'', ''total_management_cost''),
      (''total_development_cost'', ''summed_development_cost'')]"

definition remaining_module_keys :: "(string \<times> string) list" where
  "remaining_module_keys =
     [(''total_sitepreparation_cost'', ''summed_sitepreparation_cost''),
      (''sitepreparation_equipment_rental_usd'', ''sitepreparation_equipment_rental_usd''),
      (''sitepreparation_labor_usd'', ''sitepreparation_labor_usd''),
      (''sitepreparation_material_usd'', ''sitepreparation_material_usd''),
      (''sitepreparation_mobilization_usd'', ''sitepreparation_mobilization_usd''),
      (''total_foundation_cost'', ''summed_foundation_cost''),
      (''foundation_equipment_rental_usd'', ''foundation_equipment_rental_usd''),
      (''foundation_labor_usd'', ''foundation_labor_usd''),
      (''foundation_material_usd'', ''foundation_material_usd''),
      (''foundation_mobilization_usd'', ''foundation_mobilization_usd''),
      (''total_erection_cost'', ''total_cost_summed_erection''),
      (''erection_equipment_rental_usd'', ''erection_equipment_rental_usd''),
      (''erection_labor_usd'', ''erection_labor_usd''),
      (''erection_material_usd'', ''erection_material_usd''),
      (''erection_other_usd'', ''erection_other_usd''),
      (''erection_mobilization_usd'', ''erection_mobilization_usd''),
      (''erection_fuel_usd'', ''erection_fuel_usd''),
      (''total_gridconnection_cost'', ''trans_dist_usd''),
      (''total_collection_cost'', ''summed_collection_cost''),
      (''collection_equipment_rental_usd'', ''collection_equipment_rental_usd''),
      (''collection_labor_usd'', ''collection_labor_usd''),
      (''collection_material_usd'', ''collection_material_usd''),
      (''collection_mobilization_usd'', ''collection_mobilization_usd''),
      (''total_substation_cost'', ''summed_substation_cost'')]"

text \<open>Lines 336 to 340.\<close>

definition development_results :: "dict \<Rightarrow> dict \<Rightarrow> dict \<Rightarrow> exn + dict" where
  "development_results master output_dict results =
     bind_r (if dict_has output_dict ''Development labor cost USD''
             then bind_r (dict_get master ''development_labor_cost_usd'')
                    (\<lambda>v. Inr (dict_set results ''development_equipment_rental_usd'' v))
             else Inr results) (\<lambda>results.
     Inr (dict_set (dict_set (dict_set results
            ''development_labor_usd'' (PInt 0))
            ''development_material_usd'' (PInt 0))
            ''development_mobilization_usd'' (PInt 0)))"

text \<open>The messages of the error report, one for each item of the error map, in its order.\<close>

definition error_messages :: "env \<Rightarrow> dict \<Rightarrow> pyval list" where
  "error_messages env errs =
     map (\<lambda>(key, v). PStr (''Error in '' @ key @ '': '' @ py_str env v)) errs"

text \<open>
  The results dictionary. A value under \<^verbatim>\<open>'error'\<close> that is true but no dictionary has
  no \<^verbatim>\<open>items\<close>.
\<close>

definition project_results :: "env \<Rightarrow> dict \<Rightarrow> dict \<Rightarrow> exn + dict" where
  "project_results env master output_dict =
     (let results = dict_set [] ''errors'' (PList [])
      in bind_r (dict_get master ''error'') (\<lambda>err.
           if truthy err then
             (case err of
                PDict errs \<Rightarrow> Inr (dict_set results ''errors'' (PList (error_messages env errs)))
              | _ \<Rightarrow> Inl AttributeError)
           else
             bind_r (copy_outputs management_and_development_keys output_dict results) (\<lambda>results.
             bind_r (development_results master output_dict results) (\<lambda>results.
             copy_outputs remaining_module_keys output_dict results))))"

subsection \<open>The whole run\<close>

text \<open>
  The state at the \<^verbatim>\<open>return\<close>: the two dictionaries and the calls of
  \<^verbatim>\<open>Manager.execute_landbosse\<close> that were made, each with its project id.
\<close>

record run_state =
  master_input_dict :: dict
  output_dict :: dict
  manager_calls :: "string list"

text \<open>
  Lines 309 and 310: the manager is built on the two dictionaries and executed, which may
  change both.
\<close>

definition run_manager :: "env \<Rightarrow> dict \<Rightarrow> exn + run_state" where
  "run_manager env master =
     (let project_id_with_serial = ''SAM_Run''
      in bind_r (execute_landbosse env master [] project_id_with_serial) (\<lambda>dicts.
         Inr \<lparr>master_input_dict = fst dicts, output_dict = snd dicts,
             manager_calls = [project_id_with_serial]\<rparr>))"

text \<open>What follows the weather stage: component table, manager, results.\<close>

definition after_weather :: "env \<Rightarrow> dict \<Rightarrow> exn + run_state \<times> dict" where
  "after_weather env master =
     bind_r (refactor_components env master) (\<lambda>master.
     bind_r (run_manager env master) (\<lambda>st.
     bind_r (project_results env (master_input_dict st) (output_dict st)) (\<lambda>results.
     Inr (st, results))))"

definition run_landbosse_state :: "env \<Rightarrow> dict \<Rightarrow> dict \<Rightarrow> exn + run_state \<times> dict" where
  "run_landbosse_state env master0 sam_input_dict =
     bind_r (validation_stage env master0 sam_input_dict) (\<lambda>master.
     bind_r (weather_stage env sam_input_dict master) (\<lambda>master.
     after_weather env master))"

text \<open>\<open>run_landbosse\<close> returns the results dictionary.\<close>

definition run_landbosse :: "env \<Rightarrow> dict \<Rightarrow> dict \<Rightarrow> exn + dict" where
  "run_landbosse env master0 sam_input_dict =
     bind_r (run_landbosse_state env master0 sam_input_dict) (\<lambda>r. Inr (snd r))"

section \<open>Example inputs\<close>

text \<open>
  Concrete tables on which the theorems below are exercised, and an instance of the column
  operations for them: the cells are real numbers, the operations are the exact ones, no
  cell is missing, a key matches the equal key, the key of a joined row is the key of its
  left row, and keys are sorted as numbers.
\<close>

definition ex_ops :: "real column_ops" where
  "ex_ops =
     \<lparr>int_cell = real_of_int, float_cell = (\<lambda>x. x),
      col_mul = (\<lambda>x y. x * y), col_add = (\<lambda>x y. x + y), col_div = (\<lambda>x y. x / y),
      col_sum = sum_list, is_na = (\<lambda>x. False), key_eq = (\<lambda>x y. x = y),
      join_key = (\<lambda>x y. x), key_less = (\<lambda>x y. x < y)\<rparr>"

definition ex_bos_row :: "real bos_row" where
  "ex_bos_row =
     \<lparr>number_of_turbines = 100, turbine_rating_MW = 1.5, hub_height_m = 80,
      labor_cost_multiplier = 1, crane_breakdown_fraction = 0, rotor_diameter_m = 77,
      cost_per_project = 1000000, Module = ''ErectionCost''\<rparr>"

definition ex_bos_row_2MW :: "real bos_row" where
  "ex_bos_row_2MW = ex_bos_row\<lparr>turbine_rating_MW := 2\<rparr>"

definition ex_aep_row :: "real aep_row" where
  "ex_aep_row =
     \<lparr>aep_Rating_kW = 1500, aep_Rotor_Diam_m = 77, aep_Hub_height_m = 80,
      AEP_kWh_yr = 5000000\<rparr>"

definition ex_tcc_row :: "real tcc_row" where
  "ex_tcc_row =
     \<lparr>tcc_Rating_kW = 1500, tcc_Rotor_Diam_m = 77, tcc_Hub_height_m = 80,
      TCC_USD_kW = 1000\<rparr>"

definition ex_aep_tcc_row :: "real aep_tcc_row" where
  "ex_aep_tcc_row =
     \<lparr>at_Rating_kW = 1500, at_Rotor_Diam_m = 77, at_Hub_height_m = 80,
      at_AEP_kWh_yr = 5000000, at_TCC_USD_kW = 1000\<rparr>"

definition ex_bos_sum_row :: "string \<Rightarrow> real \<Rightarrow> real bos_sum_row" where
  "ex_bos_sum_row label capex =
     \<lparr>bs_Rating_kW = 1500, bs_Rotor_Diam_m = 77, bs_Number_of_turbines = 100,
      bs_Hub_height_m = 80, bs_Labor_cost_multiplier = 1, bs_Crane_breakdown_fraction = 0,
      bs_Modifications = label, bs_BOS_Capex_USD = capex\<rparr>"

definition ex_final_join :: "(real aep_tcc_row \<times> real bos_sum_row) list" where
  "ex_final_join =
     [(ex_aep_tcc_row, ex_bos_sum_row ''Conventional'' 1000000),
      (ex_aep_tcc_row, ex_bos_sum_row ''Erection 50%'' 500000),
      (ex_aep_tcc_row, ex_bos_sum_row ''Foundation 50%'' 1000000)]"

text \<open>
  A weather table as the csv reader returns it for a file of 8760 data rows, and
  collaborators that all succeed: the packaged weather file is the only file there is, the
  manager fills the output dictionary with every key the results read.
\<close>

definition ex_weather_column :: "pyval list" where
  "ex_weather_column = replicate 8760 (PFloat 0)"

definition ex_weather_frame :: frame where
  "ex_weather_frame = map (\<lambda>label. (PInt label, ex_weather_column)) [0, 1, 2, 3, 4]"

definition ex_output_dict :: dict where
  "ex_output_dict =
     map (\<lambda>k. (k, PFloat 1))
       (''Development labor cost USD'' #
        remdups (map snd (management_and_development_keys @ remaining_module_keys)))"

definition ex_env :: env where
  "ex_env =
     \<lparr>input_output_path = ''/landbosse_api'',
      apply_labor_multiplier_to_project_data_dict = (\<lambda>multiplier. Inr ()),
      strftime = (\<lambda>hour. ''2011-12-31 00:00''),
      pd_read_csv = (\<lambda>file_path.
        if file_path = PStr ''/landbosse_api/project_data/az_rolling.srw''
        then Inr ex_weather_frame else Inl (Exception ''No such file or directory'')),
      read_weather_window = (\<lambda>weather_data. Inr (PObj 2)),
      nacelle_mass = (\<lambda>rating. Inr (PFloat 50)),
      edit_nacelle_info = (\<lambda>components mass hub_height. Inr components),
      hub_mass = (\<lambda>rating. Inr (PFloat 20)),
      edit_hub_info = (\<lambda>components mass hub_height. Inr components),
      blade_mass_ton = (\<lambda>rotor_diameter. Inr (PFloat 30)),
      edit_blade_info = (\<lambda>components mass hub_height rotor_diameter. Inr components),
      tower_mass = (\<lambda>rating hub_height. Inr (PFloat 120)),
      tower_specs = (\<lambda>hub_height mass. Inr (PInt 4, PFloat 20)),
      edit_tower_sections = (\<lambda>components sections mass height. Inr components),
      component_reset_index = (\<lambda>components. Inr components),
      execute_landbosse = (\<lambda>master out project_id. Inr (master, ex_output_dict)),
      str_of = (\<lambda>v. ''<object>'')\<rparr>"

text \<open>A manager that raises.\<close>

definition ex_env_manager_raises :: env where
  "ex_env_manager_raises =
     ex_env\<lparr>execute_landbosse := (\<lambda>master out project_id. Inl (Exception ''module failed''))\<rparr>"

definition ex_master0 :: dict where
  "ex_master0 =
     [(''num_turbines'', PInt 50),
      (''turbine_rating_MW'', PFloat 2.5),
      (''labor_cost_multiplier'', PInt 1),
      (''hub_height_meters'', PInt 90),
      (''rotor_diameter_m'', PInt 100),
      (''component_data'', PObj 0),
      (''development_labor_cost_usd'', PFloat 1000000)]"

text \<open>The sample values of the docstring of \<open>run_landbosse\<close>.\<close>

definition ex_sam_inputs :: dict where
  "ex_sam_inputs =
     [(''interconnect_voltage_kV'', PInt 137),
      (''distance_to_interconnect_mi'', PInt 10),
      (''num_turbines'', PInt 100),
      (''turbine_spacing_rotor_diameters'', PInt 4),
      (''row_spacing_rotor_diameters'', PInt 10),
      (''turbine_rating_MW'', PFloat 1.5),
      (''rotor_diameter_m'', PInt 77),
      (''hub_height_meters'', PInt 80),
      (''wind_shear_exponent'', PFloat 0.2),
      (''depth'', PFloat 2.36),
      (''rated_thrust_N'', PInt 589000),
      (''labor_cost_multiplier'', PInt 1),
      (''gust_velocity_m_per_s'', PFloat 59.5)]"

text \<open>
  The same with 5 turbines of 9 MW and two negative values, \<^verbatim>\<open>depth\<close> before
  \<^verbatim>\<open>rated_thrust_N\<close>.
\<close>

definition ex_sam_invalid :: dict where
  "ex_sam_invalid =
     [(''interconnect_voltage_kV'', PInt 137),
      (''distance_to_interconnect_mi'', PInt 10),
      (''num_turbines'', PInt 5),
      (''turbine_spacing_rotor_diameters'', PInt 4),
      (''row_spacing_rotor_diameters'', PInt 10),
      (''turbine_rating_MW'', PInt 9),
      (''rotor_diameter_m'', PInt 77),
      (''hub_height_meters'', PInt 80),
      (''wind_shear_exponent'', PFloat 0.2),
      (''depth'', PFloat (- 2.36)),
      (''rated_thrust_N'', PInt (- 589000)),
      (''labor_cost_multiplier'', PInt 1),
      (''gust_velocity_m_per_s'', PFloat 59.5)]"

text \<open>The sample values with a weather file that does not exist.\<close>

definition ex_sam_missing_weather :: dict where
  "ex_sam_missing_weather = ex_sam_inputs @ [(''weather_file_path'', PStr ''/tmp/missing.srw'')]"

text \<open>
  Scenario input maps that use the key \<^verbatim>\<open>error\<close>: the invalid inputs with an empty
  dictionary and with a string under that key, and the sample inputs with the unreadable
  weather file and a string under that key.
\<close>

definition ex_sam_invalid_error_dict :: dict where
  "ex_sam_invalid_error_dict = ex_sam_invalid @ [(''error'', PDict [])]"

definition ex_sam_invalid_error_str :: dict where
  "ex_sam_invalid_error_str = ex_sam_invalid @ [(''error'', PStr ''boom'')]"

definition ex_sam_error_str :: dict where
  "ex_sam_error_str = ex_sam_missing_weather @ [(''error'', PStr ''boom'')]"

text \<open>A csv reader that finds a weather file of ten data rows at every path.\<close>

definition ex_short_weather_frame :: frame where
  "ex_short_weather_frame =
     map (\<lambda>label. (PInt label, replicate 10 (PFloat 0))) [0, 1, 2, 3, 4]"

definition ex_env_short_weather :: env where
  "ex_env_short_weather = ex_env\<lparr>pd_read_csv := (\<lambda>file_path. Inr ex_short_weather_frame)\<rparr>"

text \<open>
  What the specification says the message names: the last key, in the iteration order of
  the caller's dictionary, whose value is a negative number.
\<close>

definition last_negative_key :: "dict \<Rightarrow> string option" where
  "last_negative_key sam_input_dict = first_negative (rev sam_input_dict)"

text \<open>The master input dictionary after override and validation of the invalid inputs.\<close>

definition ex_master_invalid :: dict where
  "ex_master_invalid =
     [(''num_turbines'', PInt 5),
      (''turbine_rating_MW'', PInt 9),
      (''labor_cost_multiplier'', PInt 1),
      (''hub_height_meters'', PInt 80),
      (''rotor_diameter_m'', PInt 77),
      (''component_data'', PObj 0),
      (''development_labor_cost_usd'', PFloat 1000000),
      (''error'', PDict
         [(''NegativeInputError'', negative_input_msg ''depth''),
          (''TurbineNumberError'', turbine_number_msg),
          (''LargeTurbineSizeError'', large_turbine_msg)]),
      (''interconnect_voltage_kV'', PInt 137),
      (''distance_to_interconnect_mi'', PInt 10),
      (''turbine_spacing_rotor_diameters'', PInt 4),
      (''row_spacing_rotor_diameters'', PInt 10),
      (''wind_shear_exponent'', PFloat 0.2),
      (''depth'', PFloat (- 2.36)),
      (''rated_thrust_N'', PInt (- 589000)),
      (''gust_velocity_m_per_s'', PFloat 59.5)]"


text \<open>The master input dictionary after override and validation of the sample inputs.\<close>

definition ex_master_valid :: dict where
  "ex_master_valid =
     [(''num_turbines'', PInt 100),
      (''turbine_rating_MW'', PFloat 1.5),
      (''labor_cost_multiplier'', PInt 1),
      (''hub_height_meters'', PInt 80),
      (''rotor_diameter_m'', PInt 77),
      (''component_data'', PObj 0),
      (''development_labor_cost_usd'', PFloat 1000000),
      (''error'', PDict []),
      (''interconnect_voltage_kV'', PInt 137),
      (''distance_to_interconnect_mi'', PInt 10),
      (''turbine_spacing_rotor_diameters'', PInt 4),
      (''row_spacing_rotor_diameters'', PInt 10),
      (''wind_shear_exponent'', PFloat 0.2),
      (''depth'', PFloat 2.36),
      (''rated_thrust_N'', PInt 589000),
      (''gust_velocity_m_per_s'', PFloat 59.5)]"

text \<open>
  The master input dictionaries after override and validation of the inputs that use the
  key \<^verbatim>\<open>error\<close>: the override has replaced the error map of line 173.
\<close>

definition ex_master_invalid_error_dict :: dict where
  "ex_master_invalid_error_dict =
     dict_set ex_master_invalid ''error''
       (PDict [(''TurbineNumberError'', turbine_number_msg),
               (''LargeTurbineSizeError'', large_turbine_msg)])"

definition ex_master_error_str :: dict where
  "ex_master_error_str = dict_set ex_master_valid ''error'' (PStr ''boom'')"

text \<open>The error report of the invalid inputs.\<close>

definition ex_error_report :: dict where
  "ex_error_report =
     [(''errors'', PList
        [PStr (''Error in NegativeInputError: '' @
               ''User entered a negative value for depth. This is an invalid entry''),
         PStr (''Error in TurbineNumberError: '' @ py_str ex_env turbine_number_msg),
         PStr (''Error in LargeTurbineSizeError: '' @ py_str ex_env large_turbine_msg)])]"

section \<open>Properties of the brancher\<close>

lemmas lcoe_ex_defs = ex_bos_row_def ex_aep_row_def ex_tcc_row_def ex_bos_row_2MW_def
  ex_aep_tcc_row_def ex_bos_sum_row_def ex_final_join_def

lemma ex_ops_simps [simp]:
  "int_cell ex_ops = real_of_int" "float_cell ex_ops = (\<lambda>x. x)"
  "col_mul ex_ops = (\<lambda>x y. x * y)" "col_add ex_ops = (\<lambda>x y. x + y)"
  "col_div ex_ops = (\<lambda>x y. x / y)" "col_sum ex_ops = sum_list"
  "is_na ex_ops = (\<lambda>x. False)" "key_eq ex_ops = (\<lambda>x y. x = y)"
  "join_key ex_ops = (\<lambda>x y. x)" "key_less ex_ops = (\<lambda>x y. x < y)"
  by (simp_all add: ex_ops_def)

lemmas lcoe_defs = main_def merge_aep_tcc_def merge_bos_sum_def groupby_sum_def sort_keys_def
  preprocess_bos_module_cost_def conventional_def modify_row_def module_aliases_def
  bos_key_of_def Let_def bos_row.defs branched_row.defs

lemma preprocess_nth:
  assumes "j < length module_aliases" and "i < length df"
  shows "preprocess_bos_module_cost df ! (length df + j * length df + i) =
         modify_row (module_aliases ! j) (conventional (df ! i))"
proof -
  have "j = 0 \<or> j = 1" using assms(1) by (auto simp: module_aliases_def)
  then show ?thesis using assms(2)
    by (auto simp: preprocess_bos_module_cost_def module_aliases_def nth_append)
qed

lemma modify_row_conventional:
  "modifications (modify_row a (conventional r)) = a @ '' 50%''"
  "cost_per_project (modify_row a (conventional r)) =
     (if Module r = a @ ''Cost'' then cost_per_project r * 0.5 else cost_per_project r)"
  "bos_row.truncate (modify_row a (conventional r)) =
     r\<lparr>cost_per_project := cost_per_project (modify_row a (conventional r))\<rparr>"
  by (simp_all add: modify_row_def conventional_def Let_def bos_row.defs branched_row.defs)

lemma conventional_fields:
  "modifications (conventional r) = ''Conventional''"
  "bos_row.truncate (conventional r) = r"
  by (simp_all add: conventional_def bos_row.defs branched_row.defs)

text \<open>
  Claim C6. For a table \<open>df\<close> of \<open>n\<close> rows, \<open>preprocess_bos_module_cost\<close> returns
  \<open>(1 + k) * n\<close> rows, \<open>k = 2\<close> being the number of module aliases (Erection, Foundation).
  The first \<open>n\<close> rows are the input rows, unchanged, labelled \<^verbatim>\<open>Conventional\<close>. Then, for the
  \<open>j\<close>-th alias, comes one copy of every row, labelled with the alias followed by
  \<^verbatim>\<open> 50%\<close>: the copy of row \<open>i\<close> is at position \<open>n + j * n + i\<close>, its cost is halved
  when the row's \<^verbatim>\<open>Module\<close> is the target module (the alias followed by \<^verbatim>\<open>Cost\<close>, as the
  module is named in that column) and is the original cost otherwise, and every other column
  is that of the input row.
\<close>

theorem preprocess_bos_module_cost_rows:
  fixes df :: "'c bos_row list"
  shows
  "length module_aliases = 2 \<and>
   length (preprocess_bos_module_cost df) = (1 + length module_aliases) * length df \<and>
   take (length df) (preprocess_bos_module_cost df) = map conventional df \<and>
   (\<forall>r :: 'c bos_row. modifications (conventional r) = ''Conventional'' \<and>
        bos_row.truncate (conventional r) = r) \<and>
   (\<forall>j < length module_aliases. \<forall>i < length df.
      modifications (preprocess_bos_module_cost df ! (length df + j * length df + i)) =
        module_aliases ! j @ '' 50%'' \<and>
      cost_per_project (preprocess_bos_module_cost df ! (length df + j * length df + i)) =
        (if Module (df ! i) = module_aliases ! j @ ''Cost'' then cost_per_project (df ! i) * 0.5
         else cost_per_project (df ! i)) \<and>
      bos_row.truncate (preprocess_bos_module_cost df ! (length df + j * length df + i)) =
        (df ! i)\<lparr>cost_per_project :=
          cost_per_project (preprocess_bos_module_cost df ! (length df + j * length df + i))\<rparr>)"
proof -
  have "length module_aliases = 2" by (simp add: module_aliases_def)
  moreover have "length (preprocess_bos_module_cost df) = (1 + length module_aliases) * length df"
    by (simp add: preprocess_bos_module_cost_def module_aliases_def)
  moreover have "take (length df) (preprocess_bos_module_cost df) = map conventional df"
    by (simp add: preprocess_bos_module_cost_def)
  ultimately show ?thesis
    by (simp add: preprocess_nth modify_row_conventional conventional_fields)
qed

text \<open>
  The theorem at a table of one Erection row costing 1000000: three rows, the conventional
  one at full cost, the \<^verbatim>\<open>Erection 50%\<close> copy at half cost, the \<^verbatim>\<open>Foundation 50%\<close> copy at
  full cost.
\<close>

theorem preprocess_bos_module_cost_rows_witness:
  "length (preprocess_bos_module_cost [ex_bos_row]) = 3 \<and>
   modifications (preprocess_bos_module_cost [ex_bos_row] ! 0) = ''Conventional'' \<and>
   cost_per_project (preprocess_bos_module_cost [ex_bos_row] ! 0) = 1000000 \<and>
   modifications (preprocess_bos_module_cost [ex_bos_row] ! 1) = ''Erection 50%'' \<and>
   cost_per_project (preprocess_bos_module_cost [ex_bos_row] ! 1) = 500000 \<and>
   modifications (preprocess_bos_module_cost [ex_bos_row] ! 2) = ''Foundation 50%'' \<and>
   cost_per_project (preprocess_bos_module_cost [ex_bos_row] ! 2) = 1000000"
proof -
  note t = preprocess_bos_module_cost_rows [of "[ex_bos_row]"]
  have len: "length (preprocess_bos_module_cost [ex_bos_row]) = 3" using t by simp
  have "take 1 (preprocess_bos_module_cost [ex_bos_row]) = [conventional ex_bos_row]"
    using t by simp
  then have c0: "preprocess_bos_module_cost [ex_bos_row] ! 0 = conventional ex_bos_row"
    by (metis nth_take less_one nth_Cons_0 zero_less_one)
  have al: "module_aliases ! 0 = ''Erection''" "module_aliases ! 1 = ''Foundation''"
    by (simp_all add: module_aliases_def)
  have rows: "\<forall>j<2. \<forall>i<1.
      modifications (preprocess_bos_module_cost [ex_bos_row] ! (1 + j + i)) =
        module_aliases ! j @ '' 50%'' \<and>
      cost_per_project (preprocess_bos_module_cost [ex_bos_row] ! (1 + j + i)) =
        (if Module ([ex_bos_row] ! i) = module_aliases ! j @ ''Cost''
         then cost_per_project ([ex_bos_row] ! i) * 0.5
         else cost_per_project ([ex_bos_row] ! i))"
    using t by simp
  from rows have r1:
    "modifications (preprocess_bos_module_cost [ex_bos_row] ! 1) = ''Erection 50%'' \<and>
     cost_per_project (preprocess_bos_module_cost [ex_bos_row] ! 1) = 500000"
    using al by (auto simp: ex_bos_row_def dest!: spec[of _ 0])
  from rows have r2:
    "modifications (preprocess_bos_module_cost [ex_bos_row] ! 2) = ''Foundation 50%'' \<and>
     cost_per_project (preprocess_bos_module_cost [ex_bos_row] ! 2) = 1000000"
    using al by (auto simp: ex_bos_row_def numeral_2_eq_2 dest!: spec[of _ 1])
  have c: "modifications (conventional ex_bos_row) = ''Conventional''" using t by simp
  have "bos_row.truncate (conventional ex_bos_row) = ex_bos_row" using t by simp
  then have "cost_per_project (conventional ex_bos_row) = 1000000"
    by (simp add: conventional_def bos_row.defs ex_bos_row_def)
  with len c0 c r1 r2 show ?thesis by simp
qed

section \<open>Properties of the LCOE join\<close>

lemma length_insert_key: "length (insert_key lt k ks) = Suc (length ks)"
  by (induction ks) simp_all

lemma length_sort_keys: "length (sort_keys lt ks) = length ks"
  unfolding sort_keys_def by (induction ks) (simp_all add: length_insert_key)

lemma sort_keys_empty_iff: "sort_keys lt ks = [] \<longleftrightarrow> ks = []"
  using length_sort_keys [of lt ks] by (metis length_0_conv)

lemma groupby_sum_empty_iff:
  "groupby_sum ops bos = [] \<longleftrightarrow> (\<forall>r \<in> set bos. has_na_key ops (bos_key_of ops r))"
  by (simp add: groupby_sum_def Let_def sort_keys_empty_iff filter_empty_conv)

lemma bos_key_of_modify_row:
  "has_na_key ops (bos_key_of ops (modify_row a r)) = has_na_key ops (bos_key_of ops r)"
  by (simp add: bos_key_of_def modify_row_def Let_def)

lemma preprocess_all_na_iff:
  "(\<forall>r \<in> set (preprocess_bos_module_cost df). has_na_key ops (bos_key_of ops r)) \<longleftrightarrow>
   (\<forall>r \<in> set df. has_na_key ops (bos_key_of ops (conventional r)))"
  by (auto simp: preprocess_bos_module_cost_def module_aliases_def bos_key_of_modify_row)

lemma main_Inr_rows:
  "main ops aep tcc bos = Inr rows \<Longrightarrow>
   rows = map (lcoe_columns ops)
     (merge_bos_sum ops (merge_aep_tcc ops aep tcc)
        (groupby_sum ops (preprocess_bos_module_cost bos)))"
  by (auto simp: main_def Let_def split: if_splits)

lemma ex_merge_aep_tcc: "merge_aep_tcc ex_ops [ex_aep_row] [ex_tcc_row] = [ex_aep_tcc_row]"
  by (simp add: merge_aep_tcc_def lcoe_ex_defs)

lemma ex_groupby_sum:
  "groupby_sum ex_ops (preprocess_bos_module_cost [ex_bos_row]) =
     [ex_bos_sum_row ''Conventional'' 1000000, ex_bos_sum_row ''Erection 50%'' 500000,
      ex_bos_sum_row ''Foundation 50%'' 1000000]"
  by (simp add: lcoe_defs lcoe_ex_defs)

lemma ex_merge_bos_sum:
  "merge_bos_sum ex_ops (merge_aep_tcc ex_ops [ex_aep_row] [ex_tcc_row])
     (groupby_sum ex_ops (preprocess_bos_module_cost [ex_bos_row])) = ex_final_join"
  unfolding ex_merge_aep_tcc ex_groupby_sum
  by (simp add: merge_bos_sum_def lcoe_ex_defs)

text \<open>
  Claim C4, as stated, fails: \<open>main\<close> does not raise whenever the final join is empty. With
  one AEP row and one TCC row for a 1500 kW turbine and one BOS row for a 2 MW turbine, the
  first join has a row, the grouped BOS table has rows, the final join on
  (\<^verbatim>\<open>Rating [kW]\<close>, \<^verbatim>\<open>Hub height [m]\<close>) has none, and \<open>main\<close> returns the empty LCOE table.
\<close>

theorem main_empty_final_join_counterexample:
  "merge_aep_tcc ex_ops [ex_aep_row] [ex_tcc_row] \<noteq> [] \<and>
   merge_bos_sum ex_ops (merge_aep_tcc ex_ops [ex_aep_row] [ex_tcc_row])
     (groupby_sum ex_ops (preprocess_bos_module_cost [ex_bos_row_2MW])) = [] \<and>
   main ex_ops [ex_aep_row] [ex_tcc_row] [ex_bos_row_2MW] = Inr []"
  by (simp add: lcoe_defs lcoe_ex_defs)

text \<open>
  Claim C4, amended. \<open>main\<close> raises whenever the inner join of AEP with TCC has zero rows,
  and whenever that join has rows but the grouped BOS table has zero rows, in which case the
  final join has zero rows too. The grouped BOS table is empty exactly when every row of the
  BOS input has a missing value in one of the six numeric grouping columns, which is so in
  particular when the BOS input has no rows.
\<close>

theorem main_raises_on_empty_tables:
  "(merge_aep_tcc ops aep tcc = [] \<longrightarrow>
      main ops aep tcc bos = Inl (Exception ''aep_tcc merge is empty'')) \<and>
   (merge_aep_tcc ops aep tcc \<noteq> [] \<and> groupby_sum ops (preprocess_bos_module_cost bos) = [] \<longrightarrow>
      main ops aep tcc bos = Inl (Exception ''bos_sum is empty.'') \<and>
      merge_bos_sum ops (merge_aep_tcc ops aep tcc)
        (groupby_sum ops (preprocess_bos_module_cost bos)) = []) \<and>
   (groupby_sum ops (preprocess_bos_module_cost bos) = [] \<longleftrightarrow>
      (\<forall>r \<in> set bos. has_na_key ops (bos_key_of ops (conventional r)))) \<and>
   groupby_sum ops (preprocess_bos_module_cost []) = []"
proof -
  have "merge_bos_sum ops x [] = []" for x by (simp add: merge_bos_sum_def)
  then have a: "groupby_sum ops (preprocess_bos_module_cost bos) = [] \<Longrightarrow>
      merge_bos_sum ops (merge_aep_tcc ops aep tcc)
        (groupby_sum ops (preprocess_bos_module_cost bos)) = []"
    by simp
  have b: "merge_aep_tcc ops aep tcc = [] \<Longrightarrow>
      main ops aep tcc bos = Inl (Exception ''aep_tcc merge is empty'')"
    by (simp add: main_def Let_def)
  have c: "merge_aep_tcc ops aep tcc \<noteq> [] \<Longrightarrow>
      groupby_sum ops (preprocess_bos_module_cost bos) = [] \<Longrightarrow>
      main ops aep tcc bos = Inl (Exception ''bos_sum is empty.'')"
    by (simp add: main_def Let_def)
  have d: "groupby_sum ops (preprocess_bos_module_cost bos) = [] \<longleftrightarrow>
      (\<forall>r \<in> set bos. has_na_key ops (bos_key_of ops (conventional r)))"
    by (simp only: groupby_sum_empty_iff preprocess_all_na_iff)
  have e: "groupby_sum ops (preprocess_bos_module_cost []) = []"
    by (simp add: groupby_sum_empty_iff preprocess_bos_module_cost_def module_aliases_def)
  from a b c d e show ?thesis by blast
qed

theorem main_raises_on_empty_tables_witness:
  "merge_aep_tcc ex_ops [] [ex_tcc_row] = [] \<and>
   main ex_ops [] [ex_tcc_row] [ex_bos_row] = Inl (Exception ''aep_tcc merge is empty'') \<and>
   merge_aep_tcc ex_ops [ex_aep_row] [ex_tcc_row] \<noteq> [] \<and>
   groupby_sum ex_ops (preprocess_bos_module_cost []) = [] \<and>
   main ex_ops [ex_aep_row] [ex_tcc_row] [] = Inl (Exception ''bos_sum is empty.'')"
proof -
  have a: "merge_aep_tcc ex_ops [] [ex_tcc_row] = []" by (simp add: merge_aep_tcc_def)
  have b: "merge_aep_tcc ex_ops [ex_aep_row] [ex_tcc_row] \<noteq> []"
    by (simp add: ex_merge_aep_tcc)
  note t1 = main_raises_on_empty_tables [of ex_ops "[]" "[ex_tcc_row]" "[ex_bos_row]"]
  note t2 = main_raises_on_empty_tables [of ex_ops "[ex_aep_row]" "[ex_tcc_row]" "[]"]
  have c: "groupby_sum ex_ops (preprocess_bos_module_cost []) = []"
    using t2 by simp
  from t1 a
  have d: "main ex_ops [] [ex_tcc_row] [ex_bos_row] = Inl (Exception ''aep_tcc merge is empty'')"
    by blast
  from t2 b c
  have e: "main ex_ops [ex_aep_row] [ex_tcc_row] [] = Inl (Exception ''bos_sum is empty.'')"
    by blast
  from a b c d e show ?thesis by blast
qed

lemma set_merge_bos_sum:
  "set (merge_bos_sum ops aep_tcc bos_sum) =
     {(a, b). a \<in> set aep_tcc \<and> b \<in> set bos_sum \<and>
              key_eq ops (at_Rating_kW a) (bs_Rating_kW b) \<and>
              key_eq ops (at_Hub_height_m a) (bs_Hub_height_m b)}"
  by (auto simp: merge_bos_sum_def)

text \<open>
  Claim C7. The joined LCOE table holds the pairs of a row of the AEP-TCC join and a row of
  the grouped BOS table whose \<^verbatim>\<open>Rating [kW]\<close> and \<^verbatim>\<open>Hub height [m]\<close> match. When
  \<open>main\<close> returns, the table it returns has one row for every row of that join, in the
  same order, and for every row of the join the row at the same position has
  FCR = 0.079 and Opex rate = 52.0,
  Total Opex = 52.0 * Rating[kW] * Number of turbines,
  Turbine Capex = TCC[USD/kW] * Rating[kW] * Number of turbines and
  LCOE = ((BOS Capex + Turbine Capex) * 0.079 + Total Opex) / (AEP * Number of turbines),
  each product, sum and quotient being the operation of the pandas columns applied in
  this order (so with the rounding of float64, or the wrap-around of int64, of the cells
  involved) and 0.079, 52.0 being the float cells of these literals. Rating[kW] is the key
  cell of the joined row; the other operands are the cells of the two rows that were joined.
\<close>

theorem main_lcoe_formula:
  assumes "main ops aep tcc bos = Inr rows"
  shows "let aep_tcc = merge_aep_tcc ops aep tcc;
             bos_sum = groupby_sum ops (preprocess_bos_module_cost bos);
             lcoe = merge_bos_sum ops aep_tcc bos_sum
         in set lcoe =
              {(a, b). a \<in> set aep_tcc \<and> b \<in> set bos_sum \<and>
                       key_eq ops (at_Rating_kW a) (bs_Rating_kW b) \<and>
                       key_eq ops (at_Hub_height_m a) (bs_Hub_height_m b)} \<and>
            length rows = length lcoe \<and>
            (\<forall>i < length lcoe.
               let a = fst (lcoe ! i);
                   b = snd (lcoe ! i);
                   row = rows ! i;
                   rating = join_key ops (at_Rating_kW a) (bs_Rating_kW b);
                   n = bs_Number_of_turbines b
               in lc_aep_tcc row = a \<and> lc_bos_sum row = b \<and>
                  lc_Rating_kW row = rating \<and>
                  lc_Hub_height_m row = join_key ops (at_Hub_height_m a) (bs_Hub_height_m b) \<and>
                  FCR_per_yr row = float_cell ops 0.079 \<and>
                  Opex_USD_kW_yr row = float_cell ops 52.0 \<and>
                  Total_Opex_USD row =
                    col_mul ops (col_mul ops (float_cell ops 52.0) rating) n \<and>
                  Turbine_Capex_USD row =
                    col_mul ops (col_mul ops (at_TCC_USD_kW a) rating) n \<and>
                  LCOE_USD_kWh row =
                    col_div ops
                      (col_add ops
                         (col_mul ops
                            (col_add ops (bs_BOS_Capex_USD b) (Turbine_Capex_USD row))
                            (float_cell ops 0.079))
                         (Total_Opex_USD row))
                      (col_mul ops (at_AEP_kWh_yr a) n))"
proof -
  let ?J = "merge_bos_sum ops (merge_aep_tcc ops aep tcc)
              (groupby_sum ops (preprocess_bos_module_cost bos))"
  have rows: "rows = map (lcoe_columns ops) ?J" using main_Inr_rows [OF assms] .
  have len: "length rows = length ?J" by (simp add: rows)
  have nth: "rows ! i = lcoe_columns ops (?J ! i)" if "i < length ?J" for i
    using that by (simp add: rows)
  show ?thesis
    unfolding Let_def
  proof (intro conjI allI impI)
    show "length rows = length ?J" by (rule len)
  next
    show "set ?J =
       {(a, b). a \<in> set (merge_aep_tcc ops aep tcc) \<and>
                b \<in> set (groupby_sum ops (preprocess_bos_module_cost bos)) \<and>
                key_eq ops (at_Rating_kW a) (bs_Rating_kW b) \<and>
                key_eq ops (at_Hub_height_m a) (bs_Hub_height_m b)}"
      by (rule set_merge_bos_sum)
  qed (simp_all add: nth lcoe_columns_def Let_def)
qed

lemma ex_main:
  "main ex_ops [ex_aep_row] [ex_tcc_row] [ex_bos_row] = Inr (map (lcoe_columns ex_ops) ex_final_join)"
proof -
  have "merge_aep_tcc ex_ops [ex_aep_row] [ex_tcc_row] \<noteq> []" by (simp add: ex_merge_aep_tcc)
  moreover have "groupby_sum ex_ops (preprocess_bos_module_cost [ex_bos_row]) \<noteq> []"
    by (simp add: ex_groupby_sum)
  ultimately show ?thesis
    by (simp add: main_def Let_def ex_merge_bos_sum)
qed

text \<open>
  The theorem on the example tables: 100 turbines of 1500 kW at 1000 USD/kW, 5 GWh a year
  each, and a BOS cost of 1000000 USD. The final join has three rows, one for each label, and
  so has the table returned; in exact arithmetic the conventional row has a Total Opex of
  7800000 USD, a Turbine Capex of 150000000 USD and an LCOE of 0.039458 USD/kWh, and the
  row of the halved erection cost an LCOE of 0.039379 USD/kWh.
\<close>

theorem main_lcoe_formula_witness:
  "\<exists>rows. main ex_ops [ex_aep_row] [ex_tcc_row] [ex_bos_row] = Inr rows \<and>
     length rows = 3 \<and>
     FCR_per_yr (rows ! 0) = 0.079 \<and> Opex_USD_kW_yr (rows ! 0) = 52 \<and>
     Total_Opex_USD (rows ! 0) = 7800000 \<and> Turbine_Capex_USD (rows ! 0) = 150000000 \<and>
     LCOE_USD_kWh (rows ! 0) = 19729 / 500000 \<and>
     bs_Modifications (lc_bos_sum (rows ! 1)) = ''Erection 50%'' \<and>
     LCOE_USD_kWh (rows ! 1) = 39379 / 1000000"
proof -
  let ?rows = "map (lcoe_columns ex_ops) ex_final_join"
  have m: "main ex_ops [ex_aep_row] [ex_tcc_row] [ex_bos_row] = Inr ?rows" by (rule ex_main)
  note t = main_lcoe_formula [OF m, unfolded Let_def ex_merge_bos_sum, THEN conjunct2]
  have len: "length ?rows = 3" using t by (simp add: ex_final_join_def)
  have j0: "ex_final_join ! 0 = (ex_aep_tcc_row, ex_bos_sum_row ''Conventional'' 1000000)"
    and j1: "ex_final_join ! 1 = (ex_aep_tcc_row, ex_bos_sum_row ''Erection 50%'' 500000)"
    by (simp_all add: ex_final_join_def)
  have l: "0 < length ex_final_join" "1 < length ex_final_join"
    by (simp_all add: ex_final_join_def)
  from t [THEN conjunct2, rule_format, OF l(1), unfolded j0] have r0:
    "FCR_per_yr (?rows ! 0) = 0.079 \<and> Opex_USD_kW_yr (?rows ! 0) = 52 \<and>
     Total_Opex_USD (?rows ! 0) = 7800000 \<and> Turbine_Capex_USD (?rows ! 0) = 150000000 \<and>
     LCOE_USD_kWh (?rows ! 0) = 19729 / 500000"
    by (clarsimp simp: ex_aep_tcc_row_def ex_bos_sum_row_def)
  from t [THEN conjunct2, rule_format, OF l(2), unfolded j1] have r1:
    "bs_Modifications (lc_bos_sum (?rows ! 1)) = ''Erection 50%'' \<and>
     LCOE_USD_kWh (?rows ! 1) = 39379 / 1000000"
    by (clarsimp simp: ex_aep_tcc_row_def ex_bos_sum_row_def)
  from m len r0 r1 show ?thesis by blast
qed

section \<open>Properties of override and validation\<close>

lemma bind_r_simps [simp]:
  "bind_r (Inl e) f = Inl e"
  "bind_r (Inr x) f = f x"
  by (simp_all add: bind_r_def)

lemma bind_r_Inr_iff:
  "bind_r m f = Inr y \<longleftrightarrow> (\<exists>x. m = Inr x \<and> f x = Inr y)"
  by (cases m) simp_all

lemma map_of_dict_set [simp]: "map_of (dict_set d k v) = (map_of d)(k \<mapsto> v)"
  by (simp add: dict_set_def update_conv')

lemma dict_set_Nil [simp]: "dict_set [] k v = [(k, v)]"
  by (simp add: dict_set_def)

lemma dict_set_Cons [simp]:
  "dict_set ((k, v) # d) k' v' = (if k = k' then (k', v') # d else (k, v) # dict_set d k' v')"
  by (simp add: dict_set_def)

lemma dict_get_Some: "map_of d k = Some v \<Longrightarrow> dict_get d k = Inr v"
  by (simp add: dict_get_def)

lemma dict_get_Inr_iff: "dict_get d k = Inr v \<longleftrightarrow> map_of d k = Some v"
  by (simp add: dict_get_def split: option.splits)

lemma record_error_dict:
  "map_of master ''error'' = Some (PDict errs) \<Longrightarrow>
   record_error master kind msg = Inr (dict_set master ''error'' (PDict (dict_set errs kind msg)))"
  by (simp add: record_error_def)

lemma record_error_Inr:
  "record_error master kind msg = Inr m \<Longrightarrow>
   \<exists>errs. map_of master ''error'' = Some (PDict errs) \<and>
          m = dict_set master ''error'' (PDict (dict_set errs kind msg))"
  by (auto simp: record_error_def split: option.splits pyval.splits)

lemma override_inputs_result:
  assumes "fst ` set items \<subseteq> fst ` set sam"
  shows "\<exists>m. override_inputs items sam master = Inr m \<and>
           (\<forall>k. map_of m k = (if k \<in> fst ` set items \<and> k \<noteq> ''weather_file_path''
                               then map_of sam k else map_of master k))"
  using assms
proof (induction items arbitrary: master)
  case Nil
  then show ?case by simp
next
  case (Cons item items)
  obtain key uu where item: "item = (key, uu)" by (cases item)
  from Cons.prems have sub: "fst ` set items \<subseteq> fst ` set sam" by auto
  show ?case
  proof (cases "key = ''weather_file_path''")
    case True
    from Cons.IH [OF sub, of master] obtain m where
      m: "override_inputs items sam master = Inr m"
         "\<forall>k. map_of m k = (if k \<in> fst ` set items \<and> k \<noteq> ''weather_file_path''
                               then map_of sam k else map_of master k)" by blast
    with True item show ?thesis by auto
  next
    case False
    from Cons.prems item have "key \<in> fst ` set sam" by auto
    then obtain v where v: "map_of sam key = Some v"
      by (metis weak_map_of_SomeI not_None_eq map_of_eq_None_iff)
    from Cons.IH [OF sub, of "dict_set master key v"] obtain m where
      m: "override_inputs items sam (dict_set master key v) = Inr m"
         "\<forall>k. map_of m k = (if k \<in> fst ` set items \<and> k \<noteq> ''weather_file_path''
                               then map_of sam k else map_of (dict_set master key v) k)" by blast
    from False item v m show ?thesis by (auto simp: dict_get_Some)
  qed
qed

lemma override_all:
  "\<exists>m. override_inputs sam sam master = Inr m \<and>
       (\<forall>k. map_of m k = (if k \<in> fst ` set sam \<and> k \<noteq> ''weather_file_path''
                           then map_of sam k else map_of master k))"
  by (rule override_inputs_result) simp

lemma check_negative_inputs_dict:
  "map_of master ''error'' = Some (PDict errs) \<Longrightarrow>
   check_negative_inputs sam master =
     Inr (case first_negative sam of None \<Rightarrow> master
          | Some key \<Rightarrow> dict_set master ''error''
              (PDict (dict_set errs ''NegativeInputError'' (negative_input_msg key))))"
  by (simp add: check_negative_inputs_def record_error_dict split: option.splits)

lemma check_num_turbines_dict:
  assumes "map_of sam ''num_turbines'' = Some n" "py_num n = Some x"
    and "map_of master ''error'' = Some (PDict errs)"
  shows "check_num_turbines sam master =
     Inr (if 10 < x then dict_set master ''num_turbines'' n
          else dict_set master ''error'' (PDict (dict_set errs ''TurbineNumberError'' turbine_number_msg)))"
  using assms by (simp add: check_num_turbines_def dict_get_Some py_gt_def record_error_dict)

lemma check_turbine_rating_dict:
  assumes "map_of sam ''turbine_rating_MW'' = Some r" "py_num r = Some y"
    and "map_of master ''error'' = Some (PDict errs)"
  shows "check_turbine_rating sam master =
     Inr (if 8 < y then dict_set master ''error'' (PDict (dict_set errs ''LargeTurbineSizeError'' large_turbine_msg))
          else if y < 1 then dict_set master ''error'' (PDict (dict_set errs ''SmallTurbineSizeError'' small_turbine_msg))
          else dict_set master ''turbine_rating_MW'' r)"
  using assms by (simp add: check_turbine_rating_def dict_get_Some py_gt_def py_lt_def record_error_dict)

lemma validation_stage_result:
  assumes noerr: "''error'' \<notin> fst ` set sam"
    and labor: "(map_of master0 ++ map_of sam) ''labor_cost_multiplier'' = Some l"
               "apply_labor_multiplier_to_project_data_dict env l = Inr ()"
    and nt: "map_of sam ''num_turbines'' = Some n" "py_num n = Some x"
    and rt: "map_of sam ''turbine_rating_MW'' = Some r" "py_num r = Some y"
  shows "\<exists>m. validation_stage env master0 sam = Inr m \<and>
           (let e1 = (case first_negative sam of None \<Rightarrow> []
                      | Some key \<Rightarrow> [(''NegativeInputError'', negative_input_msg key)]);
                e2 = (if 10 < x then e1
                      else dict_set e1 ''TurbineNumberError'' turbine_number_msg);
                e3 = (if 8 < y then dict_set e2 ''LargeTurbineSizeError'' large_turbine_msg
                      else if y < 1
                        then dict_set e2 ''SmallTurbineSizeError'' small_turbine_msg
                        else e2)
            in map_of m ''error'' = Some (PDict e3)) \<and>
           (\<forall>k. k \<noteq> ''error'' \<longrightarrow>
              map_of m k = (if k \<in> fst ` set sam \<and> k \<noteq> ''weather_file_path''
                            then map_of sam k else map_of master0 k))"
proof -
  define neg_errors where "neg_errors = (case first_negative sam of None \<Rightarrow> []
      | Some key \<Rightarrow> [(''NegativeInputError'', negative_input_msg key)])"
  define num_errors where "num_errors =
     (if 10 < x then neg_errors else dict_set neg_errors ''TurbineNumberError'' turbine_number_msg)"
  define rating_errors where "rating_errors =
     (if 8 < y then dict_set num_errors ''LargeTurbineSizeError'' large_turbine_msg
      else if y < 1 then dict_set num_errors ''SmallTurbineSizeError'' small_turbine_msg
      else num_errors)"
  let ?m0 = "dict_set master0 ''error'' (PDict [])"
  have e0: "map_of ?m0 ''error'' = Some (PDict [])" by simp
  define m1 where "m1 = (case first_negative sam of None \<Rightarrow> ?m0
          | Some key \<Rightarrow> dict_set ?m0 ''error''
              (PDict (dict_set [] ''NegativeInputError'' (negative_input_msg key))))"
  have s1: "check_negative_inputs sam ?m0 = Inr m1"
    unfolding m1_def by (rule check_negative_inputs_dict [OF e0])
  have e1: "map_of m1 ''error'' = Some (PDict (neg_errors))"
    by (simp add: m1_def neg_errors_def split: option.splits)
  have o1: "map_of m1 k = map_of master0 k" if "k \<noteq> ''error''" for k
    using that by (simp add: m1_def split: option.splits)
  from override_all [of sam m1] obtain m2 where
    s2: "override_inputs sam sam m1 = Inr m2"
    and k2: "\<And>k. map_of m2 k = (if k \<in> fst ` set sam \<and> k \<noteq> ''weather_file_path''
                           then map_of sam k else map_of m1 k)" by blast
  have e2: "map_of m2 ''error'' = Some (PDict (neg_errors))"
    using k2 [of "''error''"] noerr e1 by simp
  have o2: "map_of m2 k = (if k \<in> fst ` set sam \<and> k \<noteq> ''weather_file_path''
                           then map_of sam k else map_of master0 k)" if "k \<noteq> ''error''" for k
    using k2 [of k] o1 [OF that] by simp
  have "map_of m2 ''labor_cost_multiplier'' = Some l"
  proof (cases "map_of sam ''labor_cost_multiplier''")
    case None
    then have "''labor_cost_multiplier'' \<notin> fst ` set sam" by (simp add: map_of_eq_None_iff)
    with None labor(1) show ?thesis using o2 [of "''labor_cost_multiplier''"]
      by (simp add: map_add_def)
  next
    case (Some v)
    then have "''labor_cost_multiplier'' \<in> fst ` set sam"
      by (metis map_of_eq_None_iff option.distinct(1))
    with Some labor(1) show ?thesis using o2 [of "''labor_cost_multiplier''"]
      by (simp add: map_add_def)
  qed
  then have s3: "update_labor_multiplier env m2 = Inr m2"
    using labor(2) by (simp add: update_labor_multiplier_def dict_get_Some)
  define m4 where "m4 = (if 10 < x then dict_set m2 ''num_turbines'' n
          else dict_set m2 ''error'' (PDict (dict_set (neg_errors) ''TurbineNumberError'' turbine_number_msg)))"
  have s4: "check_num_turbines sam m2 = Inr m4"
    unfolding m4_def by (rule check_num_turbines_dict [OF nt e2])
  have e4: "map_of m4 ''error'' = Some (PDict (num_errors))"
    using e2 by (simp add: m4_def num_errors_def)
  have nt_in: "''num_turbines'' \<in> fst ` set sam"
    using nt(1) by (metis map_of_eq_None_iff option.distinct(1))
  have rt_in: "''turbine_rating_MW'' \<in> fst ` set sam"
    using rt(1) by (metis map_of_eq_None_iff option.distinct(1))
  have o4: "map_of m4 k = (if k \<in> fst ` set sam \<and> k \<noteq> ''weather_file_path''
                           then map_of sam k else map_of master0 k)" if "k \<noteq> ''error''" for k
    using o2 [OF that] that nt nt_in by (auto simp: m4_def)
  define m5 where "m5 = (if 8 < y then dict_set m4 ''error'' (PDict (dict_set (num_errors) ''LargeTurbineSizeError'' large_turbine_msg))
          else if y < 1 then dict_set m4 ''error'' (PDict (dict_set (num_errors) ''SmallTurbineSizeError'' small_turbine_msg))
          else dict_set m4 ''turbine_rating_MW'' r)"
  have s5: "check_turbine_rating sam m4 = Inr m5"
    unfolding m5_def by (rule check_turbine_rating_dict [OF rt e4])
  have e5: "map_of m5 ''error'' = Some (PDict (rating_errors))"
    using e4 by (simp add: m5_def rating_errors_def)
  have o5: "map_of m5 k = (if k \<in> fst ` set sam \<and> k \<noteq> ''weather_file_path''
                           then map_of sam k else map_of master0 k)" if "k \<noteq> ''error''" for k
    using o4 [OF that] that rt rt_in by (auto simp: m5_def)
  have "validation_stage env master0 sam = Inr m5"
    by (simp add: validation_stage_def s1 s2 s3 s4 s5)
  with e5 o5 show ?thesis
    unfolding rating_errors_def num_errors_def neg_errors_def Let_def by blast
qed

lemmas validation_defs = validation_stage_def check_negative_inputs_def update_labor_multiplier_def
  check_num_turbines_def check_turbine_rating_def record_error_def dict_get_def py_gt_def py_lt_def

lemma ex_validation_invalid:
  "validation_stage ex_env ex_master0 ex_sam_invalid = Inr ex_master_invalid"
  by (simp add: validation_defs ex_env_def ex_master0_def ex_sam_invalid_def ex_master_invalid_def)

lemma first_negative_exists:
  "(k, v) \<in> set sam \<Longrightarrow> negative_number v \<Longrightarrow> \<exists>key. first_negative sam = Some key"
  by (induction sam) auto

lemma first_negative_split:
  "first_negative sam = Some key \<Longrightarrow>
   \<exists>pre v post. sam = pre @ (key, v) # post \<and> negative_number v \<and>
      (\<forall>p \<in> set pre. \<not> negative_number (snd p))"
proof (induction sam)
  case Nil
  then show ?case by simp
next
  case (Cons item sam)
  obtain k v where item: "item = (k, v)" by (cases item)
  show ?case
  proof (cases "negative_number v")
    case True
    with Cons.prems item have "key = k" by simp
    with True item have "item # sam = [] @ (key, v) # sam \<and> negative_number v \<and>
        (\<forall>p \<in> set []. \<not> negative_number (snd p))" by simp
    then show ?thesis by blast
  next
    case False
    with Cons.prems item have "first_negative sam = Some key" by simp
    from Cons.IH [OF this] obtain pre v' post where
      "sam = pre @ (key, v') # post" "negative_number v'"
      "\<forall>p \<in> set pre. \<not> negative_number (snd p)" by blast
    with False item have "item # sam = (item # pre) @ (key, v') # post \<and> negative_number v' \<and>
        (\<forall>p \<in> set (item # pre). \<not> negative_number (snd p))" by simp
    then show ?thesis by blast
  qed
qed

text \<open>
  Claim C1, amended. For a scenario input map that holds a number under
  \<^verbatim>\<open>num_turbines\<close> and under \<^verbatim>\<open>turbine_rating_MW\<close>, does not use the key
  \<^verbatim>\<open>error\<close>, and whose labor multiplier is applied without failure, the
  override-and-validation stage returns, and afterwards both fields of the master map hold
  the value of the scenario input map, whether the check passes or fails: the loop of lines
  192 to 196 has copied them before the checks run. A failing check only adds its entry to
  the error map: \<^verbatim>\<open>TurbineNumberError\<close> exactly when the count is at most 10,
  \<^verbatim>\<open>LargeTurbineSizeError\<close> exactly when the rating exceeds 8,
  \<^verbatim>\<open>SmallTurbineSizeError\<close> exactly when it is below 1.
\<close>

theorem validation_keeps_override_values:
  assumes "''error'' \<notin> fst ` set sam"
    and "(map_of master0 ++ map_of sam) ''labor_cost_multiplier'' = Some l"
    and "apply_labor_multiplier_to_project_data_dict env l = Inr ()"
    and "map_of sam ''num_turbines'' = Some n" and "py_num n = Some x"
    and "map_of sam ''turbine_rating_MW'' = Some r" and "py_num r = Some y"
  shows "\<exists>m errs. validation_stage env master0 sam = Inr m \<and>
           map_of m ''num_turbines'' = Some n \<and>
           map_of m ''turbine_rating_MW'' = Some r \<and>
           map_of m ''error'' = Some (PDict errs) \<and>
           (''TurbineNumberError'' \<in> fst ` set errs \<longleftrightarrow> x \<le> 10) \<and>
           (''LargeTurbineSizeError'' \<in> fst ` set errs \<longleftrightarrow> 8 < y) \<and>
           (''SmallTurbineSizeError'' \<in> fst ` set errs \<longleftrightarrow> y < 1)"
proof -
  from validation_stage_result [OF assms] obtain m where
    m: "validation_stage env master0 sam = Inr m"
    and e: "let e1 = (case first_negative sam of None \<Rightarrow> []
                      | Some key \<Rightarrow> [(''NegativeInputError'', negative_input_msg key)]);
                e2 = (if 10 < x then e1
                      else dict_set e1 ''TurbineNumberError'' turbine_number_msg);
                e3 = (if 8 < y then dict_set e2 ''LargeTurbineSizeError'' large_turbine_msg
                      else if y < 1
                        then dict_set e2 ''SmallTurbineSizeError'' small_turbine_msg
                        else e2)
            in map_of m ''error'' = Some (PDict e3)"
    and k: "\<And>k. k \<noteq> ''error'' \<Longrightarrow>
              map_of m k = (if k \<in> fst ` set sam \<and> k \<noteq> ''weather_file_path''
                            then map_of sam k else map_of master0 k)" by blast
  have nt_in: "''num_turbines'' \<in> fst ` set sam"
    using assms(4) by (metis map_of_eq_None_iff option.distinct(1))
  have rt_in: "''turbine_rating_MW'' \<in> fst ` set sam"
    using assms(6) by (metis map_of_eq_None_iff option.distinct(1))
  have a: "map_of m ''num_turbines'' = Some n" using k [of "''num_turbines''"] nt_in assms(4) by simp
  have b: "map_of m ''turbine_rating_MW'' = Some r" using k [of "''turbine_rating_MW''"] rt_in assms(6) by simp
  from e obtain errs where errs: "map_of m ''error'' = Some (PDict errs)"
    and c: "(''TurbineNumberError'' \<in> fst ` set errs \<longleftrightarrow> x \<le> 10)"
           "(''LargeTurbineSizeError'' \<in> fst ` set errs \<longleftrightarrow> 8 < y)"
           "(''SmallTurbineSizeError'' \<in> fst ` set errs \<longleftrightarrow> y < 1)"
    by (cases "first_negative sam") (auto simp: Let_def split: if_splits)
  from m a b errs c show ?thesis by blast
qed


lemma ex_invalid_hyps:
  "''error'' \<notin> fst ` set ex_sam_invalid"
  "(map_of ex_master0 ++ map_of ex_sam_invalid) ''labor_cost_multiplier'' = Some (PInt 1)"
  "apply_labor_multiplier_to_project_data_dict ex_env (PInt 1) = Inr ()"
  "map_of ex_sam_invalid ''num_turbines'' = Some (PInt 5)"
  "map_of ex_sam_invalid ''turbine_rating_MW'' = Some (PInt 9)"
  "(''depth'', PFloat (- 2.36)) \<in> set ex_sam_invalid"
  by (simp_all add: ex_sam_invalid_def ex_master0_def ex_env_def)

text \<open>The theorem at the invalid example inputs: 5 turbines of 9 MW.\<close>

theorem validation_keeps_override_values_witness:
  "\<exists>m errs. validation_stage ex_env ex_master0 ex_sam_invalid = Inr m \<and>
     map_of m ''num_turbines'' = Some (PInt 5) \<and>
     map_of m ''turbine_rating_MW'' = Some (PInt 9) \<and>
     map_of m ''error'' = Some (PDict errs) \<and>
     ''TurbineNumberError'' \<in> fst ` set errs \<and>
     ''LargeTurbineSizeError'' \<in> fst ` set errs \<and>
     ''SmallTurbineSizeError'' \<notin> fst ` set errs"
proof -
  have x: "py_num (PInt 5) = Some 5" and y: "py_num (PInt 9) = Some 9" by simp_all
  from validation_keeps_override_values
         [OF ex_invalid_hyps(1) ex_invalid_hyps(2) ex_invalid_hyps(3) ex_invalid_hyps(4) x
             ex_invalid_hyps(5) y]
  show ?thesis by simp
qed

text \<open>
  Claim C1, as stated, fails. The master map holds 50 turbines of 2.5 MW before the stage;
  the scenario input map asks for 5 turbines of 9 MW, so both checks fail; after the
  stage the master map holds 5 and 9, the failing values, not 50 and 2.5.
\<close>

theorem validation_overwrites_on_failure_counterexample:
  "map_of ex_master0 ''num_turbines'' = Some (PInt 50) \<and>
   map_of ex_master0 ''turbine_rating_MW'' = Some (PFloat 2.5) \<and>
   map_of ex_sam_invalid ''num_turbines'' = Some (PInt 5) \<and>
   py_gt (PInt 5) 10 = Inr False \<and>
   map_of ex_sam_invalid ''turbine_rating_MW'' = Some (PInt 9) \<and>
   py_gt (PInt 9) 8 = Inr True \<and>
   validation_stage ex_env ex_master0 ex_sam_invalid = Inr ex_master_invalid \<and>
   map_of ex_master_invalid ''num_turbines'' = Some (PInt 5) \<and>
   map_of ex_master_invalid ''turbine_rating_MW'' = Some (PInt 9)"
  using ex_validation_invalid
  by (simp add: ex_master0_def ex_sam_invalid_def ex_master_invalid_def py_gt_def)

text \<open>
  Claim C2, as stated, fails: not every scenario input map with a negative value, at most
  10 turbines and a rating above 8 MW ends with the three entries. The loop of lines 192 to
  196 copies the key \<^verbatim>\<open>error\<close> like any other, so a scenario input map that uses it
  replaces the error map after the negative-value entry has been recorded. The invalid
  example inputs with an empty dictionary under \<^verbatim>\<open>error\<close> end with two entries only,
  \<^verbatim>\<open>NegativeInputError\<close> is lost; with a string under \<^verbatim>\<open>error\<close> the handler of
  \<^verbatim>\<open>TurbineNumberError\<close> assigns an item of a string, and the \<^verbatim>\<open>TypeError\<close> leaves
  the function.
\<close>

theorem validation_error_key_override_counterexample:
  "first_negative ex_sam_invalid_error_dict = Some ''depth'' \<and>
   map_of ex_sam_invalid_error_dict ''num_turbines'' = Some (PInt 5) \<and>
   map_of ex_sam_invalid_error_dict ''turbine_rating_MW'' = Some (PInt 9) \<and>
   validation_stage ex_env ex_master0 ex_sam_invalid_error_dict =
     Inr ex_master_invalid_error_dict \<and>
   map_of ex_master_invalid_error_dict ''error'' =
     Some (PDict [(''TurbineNumberError'', turbine_number_msg),
                  (''LargeTurbineSizeError'', large_turbine_msg)]) \<and>
   first_negative ex_sam_invalid_error_str = Some ''depth'' \<and>
   map_of ex_sam_invalid_error_str ''num_turbines'' = Some (PInt 5) \<and>
   map_of ex_sam_invalid_error_str ''turbine_rating_MW'' = Some (PInt 9) \<and>
   validation_stage ex_env ex_master0 ex_sam_invalid_error_str = Inl TypeError"
proof -
  have a: "validation_stage ex_env ex_master0 ex_sam_invalid_error_dict =
      Inr ex_master_invalid_error_dict"
    by (simp add: validation_defs ex_env_def ex_master0_def ex_sam_invalid_def
          ex_master_invalid_def ex_sam_invalid_error_dict_def ex_master_invalid_error_dict_def)
  have b: "validation_stage ex_env ex_master0 ex_sam_invalid_error_str = Inl TypeError"
    by (simp add: validation_defs ex_env_def ex_master0_def ex_sam_invalid_def
          ex_sam_invalid_error_str_def)
  have c: "map_of ex_master_invalid_error_dict ''error'' =
     Some (PDict [(''TurbineNumberError'', turbine_number_msg),
                  (''LargeTurbineSizeError'', large_turbine_msg)])"
    by (simp add: ex_master_invalid_error_dict_def)
  have d: "first_negative ex_sam_invalid_error_dict = Some ''depth''"
    "map_of ex_sam_invalid_error_dict ''num_turbines'' = Some (PInt 5)"
    "map_of ex_sam_invalid_error_dict ''turbine_rating_MW'' = Some (PInt 9)"
    "first_negative ex_sam_invalid_error_str = Some ''depth''"
    "map_of ex_sam_invalid_error_str ''num_turbines'' = Some (PInt 5)"
    "map_of ex_sam_invalid_error_str ''turbine_rating_MW'' = Some (PInt 9)"
    by (simp_all add: ex_sam_invalid_error_dict_def ex_sam_invalid_error_str_def
          ex_sam_invalid_def)
  from a b c d show ?thesis by simp
qed

text \<open>
  Claim C2, amended. For every scenario input map that does not use the key
  \<^verbatim>\<open>error\<close>, that holds a negative int or float, a number that is at most 10 under
  \<^verbatim>\<open>num_turbines\<close> and a number above 8 under \<^verbatim>\<open>turbine_rating_MW\<close>, and whose
  labor cost multiplier (the one of the scenario input map if it has one, of the master map
  otherwise) is applied without failure, the override-and-validation stage returns without
  raising and the error map holds exactly the three entries \<^verbatim>\<open>NegativeInputError\<close>,
  \<^verbatim>\<open>TurbineNumberError\<close> and \<^verbatim>\<open>LargeTurbineSizeError\<close>, each under its own key.
\<close>

theorem validation_accumulates_three_errors:
  assumes "''error'' \<notin> fst ` set sam"
    and "(map_of master0 ++ map_of sam) ''labor_cost_multiplier'' = Some l"
    and "apply_labor_multiplier_to_project_data_dict env l = Inr ()"
    and "map_of sam ''num_turbines'' = Some n" and "py_num n = Some x"
    and "map_of sam ''turbine_rating_MW'' = Some r" and "py_num r = Some y"
    and "(k, v) \<in> set sam" and "negative_number v"
    and "x \<le> 10" and "8 < y"
  shows "\<exists>m key. validation_stage env master0 sam = Inr m \<and>
           first_negative sam = Some key \<and>
           map_of m ''error'' =
             Some (PDict [(''NegativeInputError'', negative_input_msg key),
                          (''TurbineNumberError'', turbine_number_msg),
                          (''LargeTurbineSizeError'', large_turbine_msg)])"
proof -
  from first_negative_exists [OF assms(8) assms(9)] obtain key where
    key: "first_negative sam = Some key" by blast
  from validation_stage_result [OF assms(1-7)] obtain m where
    m: "validation_stage env master0 sam = Inr m"
    and e: "let e1 = (case first_negative sam of None \<Rightarrow> []
                      | Some key \<Rightarrow> [(''NegativeInputError'', negative_input_msg key)]);
                e2 = (if 10 < x then e1
                      else dict_set e1 ''TurbineNumberError'' turbine_number_msg);
                e3 = (if 8 < y then dict_set e2 ''LargeTurbineSizeError'' large_turbine_msg
                      else if y < 1
                        then dict_set e2 ''SmallTurbineSizeError'' small_turbine_msg
                        else e2)
            in map_of m ''error'' = Some (PDict e3)" by blast
  from e key assms(10) assms(11) have
    "map_of m ''error'' =
       Some (PDict [(''NegativeInputError'', negative_input_msg key),
                    (''TurbineNumberError'', turbine_number_msg),
                    (''LargeTurbineSizeError'', large_turbine_msg)])"
    by (simp add: Let_def)
  with m key show ?thesis by blast
qed

text \<open>The theorem at the invalid example inputs.\<close>

theorem validation_accumulates_three_errors_witness:
  "\<exists>m. validation_stage ex_env ex_master0 ex_sam_invalid = Inr m \<and>
     first_negative ex_sam_invalid = Some ''depth'' \<and>
     map_of m ''error'' =
       Some (PDict [(''NegativeInputError'', negative_input_msg ''depth''),
                    (''TurbineNumberError'', turbine_number_msg),
                    (''LargeTurbineSizeError'', large_turbine_msg)])"
proof -
  have x: "py_num (PInt 5) = Some 5" and y: "py_num (PInt 9) = Some 9" by simp_all
  have neg: "negative_number (PFloat (- 2.36))" by simp
  have le: "(5::real) \<le> 10" and gt: "(8::real) < 9" by simp_all
  have fn: "first_negative ex_sam_invalid = Some ''depth''" by (simp add: ex_sam_invalid_def)
  from validation_accumulates_three_errors
         [OF ex_invalid_hyps(1) ex_invalid_hyps(2) ex_invalid_hyps(3) ex_invalid_hyps(4) x
             ex_invalid_hyps(5) y ex_invalid_hyps(6) neg le gt] fn
  show ?thesis by auto
qed

text \<open>
  Claim C3, as stated, fails. The invalid example inputs hold two negative numbers, under
  \<^verbatim>\<open>depth\<close> and, later in the iteration order, under \<^verbatim>\<open>rated_thrust_N\<close>. The one
  \<^verbatim>\<open>NegativeInputError\<close> entry names \<^verbatim>\<open>depth\<close>, the first of them, not the last.
\<close>

theorem negative_input_first_key_counterexample:
  "negative_number (PFloat (- 2.36)) \<and> negative_number (PInt (- 589000)) \<and>
   first_negative ex_sam_invalid = Some ''depth'' \<and>
   last_negative_key ex_sam_invalid = Some ''rated_thrust_N'' \<and>
   validation_stage ex_env ex_master0 ex_sam_invalid = Inr ex_master_invalid \<and>
   map_of ex_master_invalid ''error'' =
     Some (PDict [(''NegativeInputError'',
                   PStr ''User entered a negative value for depth. This is an invalid entry''),
                  (''TurbineNumberError'', turbine_number_msg),
                  (''LargeTurbineSizeError'', large_turbine_msg)]) \<and>
   negative_input_msg ''depth'' \<noteq> negative_input_msg ''rated_thrust_N''"
  using ex_validation_invalid
  by (simp add: ex_sam_invalid_def ex_master_invalid_def last_negative_key_def negative_input_msg_def)

text \<open>
  Claim C3, amended. For every scenario input map that does not use the key
  \<^verbatim>\<open>error\<close>, that holds a number under \<^verbatim>\<open>num_turbines\<close> and under
  \<^verbatim>\<open>turbine_rating_MW\<close>, whose labor cost multiplier (the one of the scenario input map
  if it has one, of the master map otherwise) is applied without failure, and that holds one
  or more negative ints or floats, the override-and-validation stage returns and the error
  map holds exactly one \<^verbatim>\<open>NegativeInputError\<close> entry, and the key named in its message
  is the first key, in the iteration order of the map, whose value is a negative number: no
  item before it is negative.
\<close>

theorem negative_input_error_names_first_key:
  assumes "''error'' \<notin> fst ` set sam"
    and "(map_of master0 ++ map_of sam) ''labor_cost_multiplier'' = Some l"
    and "apply_labor_multiplier_to_project_data_dict env l = Inr ()"
    and "map_of sam ''num_turbines'' = Some n" and "py_num n = Some x"
    and "map_of sam ''turbine_rating_MW'' = Some r" and "py_num r = Some y"
    and "(k, v) \<in> set sam" and "negative_number v"
  shows "\<exists>m errs key pre v' post.
           validation_stage env master0 sam = Inr m \<and>
           map_of m ''error'' = Some (PDict errs) \<and>
           length (filter (\<lambda>e. fst e = ''NegativeInputError'') errs) = 1 \<and>
           map_of errs ''NegativeInputError'' = Some (negative_input_msg key) \<and>
           sam = pre @ (key, v') # post \<and> negative_number v' \<and>
           (\<forall>p \<in> set pre. \<not> negative_number (snd p))"
proof -
  from first_negative_exists [OF assms(8) assms(9)] obtain key where
    key: "first_negative sam = Some key" by blast
  from first_negative_split [OF key] obtain pre v' post where
    sp: "sam = pre @ (key, v') # post" "negative_number v'"
        "\<forall>p \<in> set pre. \<not> negative_number (snd p)" by blast
  from validation_stage_result [OF assms(1-7)] obtain m where
    m: "validation_stage env master0 sam = Inr m"
    and e: "let e1 = (case first_negative sam of None \<Rightarrow> []
                      | Some key \<Rightarrow> [(''NegativeInputError'', negative_input_msg key)]);
                e2 = (if 10 < x then e1
                      else dict_set e1 ''TurbineNumberError'' turbine_number_msg);
                e3 = (if 8 < y then dict_set e2 ''LargeTurbineSizeError'' large_turbine_msg
                      else if y < 1
                        then dict_set e2 ''SmallTurbineSizeError'' small_turbine_msg
                        else e2)
            in map_of m ''error'' = Some (PDict e3)" by blast
  from e key obtain errs where errs: "map_of m ''error'' = Some (PDict errs)"
    and one: "length (filter (\<lambda>e. fst e = ''NegativeInputError'') errs) = 1"
    and msg: "map_of errs ''NegativeInputError'' = Some (negative_input_msg key)"
    by (auto simp: Let_def split: if_splits)
  from m errs one msg sp show ?thesis by blast
qed

text \<open>The theorem at the invalid example inputs.\<close>

theorem negative_input_error_names_first_key_witness:
  "\<exists>m errs. validation_stage ex_env ex_master0 ex_sam_invalid = Inr m \<and>
     map_of m ''error'' = Some (PDict errs) \<and>
     length (filter (\<lambda>e. fst e = ''NegativeInputError'') errs) = 1 \<and>
     map_of errs ''NegativeInputError'' = Some (negative_input_msg ''depth'')"
proof -
  have x: "py_num (PInt 5) = Some 5" and y: "py_num (PInt 9) = Some 9" by simp_all
  have neg: "negative_number (PFloat (- 2.36))" by simp
  from negative_input_error_names_first_key
         [OF ex_invalid_hyps(1) ex_invalid_hyps(2) ex_invalid_hyps(3) ex_invalid_hyps(4) x
             ex_invalid_hyps(5) y ex_invalid_hyps(6) neg]
  obtain m errs key pre v' post where
    a: "validation_stage ex_env ex_master0 ex_sam_invalid = Inr m"
       "map_of m ''error'' = Some (PDict errs)"
       "length (filter (\<lambda>e. fst e = ''NegativeInputError'') errs) = 1"
       "map_of errs ''NegativeInputError'' = Some (negative_input_msg key)"
    by blast
  from a(1) ex_validation_invalid have "m = ex_master_invalid" by simp
  with a(2) have "errs = [(''NegativeInputError'', negative_input_msg ''depth''),
                          (''TurbineNumberError'', turbine_number_msg),
                          (''LargeTurbineSizeError'', large_turbine_msg)]"
    by (simp add: ex_master_invalid_def)
  with a(4) have "negative_input_msg key = negative_input_msg ''depth''"
    by simp
  with a show ?thesis by auto
qed

section \<open>Properties of the weather stage\<close>

lemma length_daterange: "length (daterange a b) = b - a"
proof (induction a b rule: daterange.induct)
  case (1 start_d end_d)
  show ?case
  proof (cases "start_d < end_d")
    case True
    with "1" show ?thesis by (subst daterange.simps) simp
  next
    case False
    then show ?thesis by (subst daterange.simps) simp
  qed
qed

lemma length_default_date_time: "length (default_date_time env) = 8760"
  by (simp add: default_date_time_def length_daterange start_date_def end_date_def)

lemma validation_stage_error_dict:
  assumes "validation_stage env master0 sam = Inr m" and "''error'' \<notin> fst ` set sam"
  shows "\<exists>errs. map_of m ''error'' = Some (PDict errs)"
proof -
  let ?m0 = "dict_set master0 ''error'' (PDict [])"
  from assms(1) obtain m1 m2 m3 m4 where
    s1: "check_negative_inputs sam ?m0 = Inr m1"
    and s2: "override_inputs sam sam m1 = Inr m2"
    and s3: "update_labor_multiplier env m2 = Inr m3"
    and s4: "check_num_turbines sam m3 = Inr m4"
    and s5: "check_turbine_rating sam m4 = Inr m"
    by (auto simp: validation_stage_def bind_r_Inr_iff)
  have "map_of ?m0 ''error'' = Some (PDict [])" by simp
  from check_negative_inputs_dict [OF this, of sam] s1
  obtain e1 where e1: "map_of m1 ''error'' = Some (PDict e1)"
    by (cases "first_negative sam") auto
  from override_all [of sam m1] s2 assms(2) e1
  have e2: "map_of m2 ''error'' = Some (PDict e1)" by auto
  from s3 have "m3 = m2"
    by (auto simp: update_labor_multiplier_def bind_r_Inr_iff)
  with e2 have e3: "map_of m3 ''error'' = Some (PDict e1)" by simp
  from s4 e3 obtain e4 where e4: "map_of m4 ''error'' = Some (PDict e4)"
    by (auto simp: check_num_turbines_def bind_r_Inr_iff split: if_splits
             dest!: record_error_Inr)
  from s5 e4 show ?thesis
    by (auto simp: check_turbine_rating_def bind_r_Inr_iff split: if_splits
             dest!: record_error_Inr)
qed

lemma weather_stage_dict:
  assumes "map_of master ''error'' = Some (PDict errs)"
  shows "weather_stage env sam master =
     Inr (case weather_try env sam master of
            Inl e \<Rightarrow> dict_set master ''error'' (PDict (dict_set errs ''Weather_Data'' (PExc e)))
          | Inr m \<Rightarrow> m)"
  using assms by (simp add: weather_stage_def record_error_dict split: sum.splits)

text \<open>
  The failures the stage can meet in the weather source: a file that cannot be read, a
  table with a number of rows other than 8760, a table with too few columns.
\<close>

lemma read_weather_input_path:
  "map_of sam ''weather_file_path'' = Some path \<Longrightarrow>
     read_weather_input env sam = pd_read_csv env path"
  "map_of sam ''weather_file_path'' = None \<Longrightarrow>
     read_weather_input env sam =
       pd_read_csv env (PStr (input_output_path env @ ''/project_data/az_rolling.srw''))"
  by (simp_all add: read_weather_input_def dict_has_def dict_get_Some read_weather_data_def)

lemma weather_try_read_fails:
  assumes "read_weather_input env sam = Inl e"
  shows "weather_try env sam master = Inl e"
  using assms by (simp add: weather_try_def)

lemma weather_try_wrong_row_count:
  assumes "read_weather_input env sam = Inr df" and "df_rows df \<noteq> 8760"
  shows "weather_try env sam master = Inl ValueError"
  using assms
  by (simp add: weather_try_def df_insert_first_def df_reset_index_def length_default_date_time)

lemma weather_try_too_few_columns:
  assumes "read_weather_input env sam = Inr df" and "length df < 4"
  shows "weather_try env sam master =
     Inl (if df_rows df = 8760 \<and> PStr ''time'' \<notin> set (map fst df) then IndexError
          else ValueError)"
proof (cases "df_rows df = 8760 \<and> PStr ''time'' \<notin> set (map fst df)")
  case True
  then have ins: "df_insert_first (df_reset_index df) (PStr ''time'') (default_date_time env) =
        Inr ((PStr ''time'', default_date_time env) # df)"
    by (simp add: df_insert_first_def df_reset_index_def length_default_date_time)
  show ?thesis
    using assms True ins by (simp add: weather_try_def df_column_name_def)
next
  case False
  then have ins: "df_insert_first (df_reset_index df) (PStr ''time'') (default_date_time env) =
        Inl ValueError"
    by (auto simp: df_insert_first_def df_reset_index_def length_default_date_time)
  show ?thesis
    using assms(1) False ins by (simp add: weather_try_def)
qed

text \<open>
  Claim C8, as stated, fails: a failure of the weather normalization can leave the function.
  The handler of line 262 assigns an item of \<^verbatim>\<open>master_input_dict['error']\<close>, and the
  loop of lines 192 to 196 has copied the caller's value of the key \<^verbatim>\<open>error\<close> there.
  With the sample inputs, a weather file that cannot be read and the string \<^verbatim>\<open>boom\<close>
  under \<^verbatim>\<open>error\<close>, the validation stage returns, the body of the \<^verbatim>\<open>try\<close> fails on the
  missing file, the handler raises \<^verbatim>\<open>TypeError\<close>, and the run ends with that exception:
  nothing is recorded under \<^verbatim>\<open>Weather_Data\<close> and the run does not continue.
\<close>

theorem weather_failure_propagates_counterexample:
  "validation_stage ex_env ex_master0 ex_sam_error_str = Inr ex_master_error_str \<and>
   map_of ex_master_error_str ''error'' = Some (PStr ''boom'') \<and>
   map_of ex_sam_error_str ''weather_file_path'' = Some (PStr ''/tmp/missing.srw'') \<and>
   weather_try ex_env ex_sam_error_str ex_master_error_str =
     Inl (Exception ''No such file or directory'') \<and>
   weather_stage ex_env ex_sam_error_str ex_master_error_str = Inl TypeError \<and>
   run_landbosse_state ex_env ex_master0 ex_sam_error_str = Inl TypeError \<and>
   run_landbosse ex_env ex_master0 ex_sam_error_str = Inl TypeError"
proof -
  have v: "validation_stage ex_env ex_master0 ex_sam_error_str = Inr ex_master_error_str"
    by (simp add: validation_defs ex_env_def ex_master0_def ex_sam_inputs_def ex_master_valid_def
          ex_sam_missing_weather_def ex_sam_error_str_def ex_master_error_str_def)
  have e: "map_of ex_master_error_str ''error'' = Some (PStr ''boom'')"
    by (simp add: ex_master_error_str_def)
  have p: "map_of ex_sam_error_str ''weather_file_path'' = Some (PStr ''/tmp/missing.srw'')"
    by (simp add: ex_sam_error_str_def ex_sam_missing_weather_def ex_sam_inputs_def)
  have "pd_read_csv ex_env (PStr ''/tmp/missing.srw'') = Inl (Exception ''No such file or directory'')"
    by (simp add: ex_env_def)
  with read_weather_input_path(1) [OF p, of ex_env]
  have "read_weather_input ex_env ex_sam_error_str = Inl (Exception ''No such file or directory'')"
    by simp
  then have t: "weather_try ex_env ex_sam_error_str ex_master_error_str =
     Inl (Exception ''No such file or directory'')"
    by (rule weather_try_read_fails)
  have w: "weather_stage ex_env ex_sam_error_str ex_master_error_str = Inl TypeError"
    by (simp add: weather_stage_def t record_error_def e)
  have r: "run_landbosse_state ex_env ex_master0 ex_sam_error_str = Inl TypeError"
    by (simp add: run_landbosse_state_def v w)
  have "run_landbosse ex_env ex_master0 ex_sam_error_str = Inl TypeError"
    by (simp add: run_landbosse_def r)
  with v e p t w r show ?thesis by simp
qed

text \<open>
  Claim C8, amended. For every weather input (the path of the caller or the packaged file)
  and every scenario input map that does not use the key \<^verbatim>\<open>error\<close> and for which the
  override-and-validation stage has returned, the weather stage returns: no failure of the
  weather normalization leaves the stage. Every failure \<open>e\<close> of the body of the
  \<^verbatim>\<open>try\<close> is stored under \<^verbatim>\<open>Weather_Data\<close> in the error map and nothing else is
  changed; in particular
  \<^item> when the weather file cannot be read, the exception of the reader is stored;
  \<^item> when the table read has a number of rows other than 8760, \<^verbatim>\<open>ValueError\<close> is
    stored (the 8760 time stamps cannot be inserted);
  \<^item> when the table read has fewer than four columns, \<^verbatim>\<open>IndexError\<close> is stored
    (or \<^verbatim>\<open>ValueError\<close>, when the time stamps could not be inserted).

  When the body does not fail the master map is the one it produced. In every case the run
  goes on with the component table, the manager and the results on that master map.
\<close>

theorem weather_failure_is_recorded:
  assumes "validation_stage env master0 sam = Inr master" and "''error'' \<notin> fst ` set sam"
  shows "\<exists>errs m. map_of master ''error'' = Some (PDict errs) \<and>
           weather_stage env sam master = Inr m \<and>
           run_landbosse_state env master0 sam = after_weather env m \<and>
           (\<forall>e. weather_try env sam master = Inl e \<longrightarrow>
                m = dict_set master ''error'' (PDict (dict_set errs ''Weather_Data'' (PExc e)))) \<and>
           (\<forall>m'. weather_try env sam master = Inr m' \<longrightarrow> m = m') \<and>
           (\<forall>path. map_of sam ''weather_file_path'' = Some path \<longrightarrow>
                read_weather_input env sam = pd_read_csv env path) \<and>
           (map_of sam ''weather_file_path'' = None \<longrightarrow>
                read_weather_input env sam =
                  pd_read_csv env
                    (PStr (input_output_path env @ ''/project_data/az_rolling.srw''))) \<and>
           (\<forall>e. read_weather_input env sam = Inl e \<longrightarrow>
                m = dict_set master ''error'' (PDict (dict_set errs ''Weather_Data'' (PExc e)))) \<and>
           (\<forall>df. read_weather_input env sam = Inr df \<and> df_rows df \<noteq> 8760 \<longrightarrow>
                m = dict_set master ''error''
                      (PDict (dict_set errs ''Weather_Data'' (PExc ValueError)))) \<and>
           (\<forall>df. read_weather_input env sam = Inr df \<and> length df < 4 \<longrightarrow>
                m = dict_set master ''error''
                      (PDict (dict_set errs ''Weather_Data''
                         (PExc (if df_rows df = 8760 \<and> PStr ''time'' \<notin> set (map fst df)
                                then IndexError else ValueError)))))"
proof -
  from validation_stage_error_dict [OF assms] obtain errs where
    errs: "map_of master ''error'' = Some (PDict errs)" by blast
  define m where "m = (case weather_try env sam master of
            Inl e \<Rightarrow> dict_set master ''error'' (PDict (dict_set errs ''Weather_Data'' (PExc e)))
          | Inr m \<Rightarrow> m)"
  have w: "weather_stage env sam master = Inr m"
    unfolding m_def by (rule weather_stage_dict [OF errs])
  have r: "run_landbosse_state env master0 sam = after_weather env m"
    by (simp add: run_landbosse_state_def assms(1) w)
  have f: "\<forall>e. weather_try env sam master = Inl e \<longrightarrow>
                m = dict_set master ''error'' (PDict (dict_set errs ''Weather_Data'' (PExc e)))"
    by (simp add: m_def)
  have g: "\<forall>m'. weather_try env sam master = Inr m' \<longrightarrow> m = m'"
    by (simp add: m_def)
  have p1: "\<forall>path. map_of sam ''weather_file_path'' = Some path \<longrightarrow>
                read_weather_input env sam = pd_read_csv env path"
    by (simp add: read_weather_input_path)
  have p2: "map_of sam ''weather_file_path'' = None \<longrightarrow>
                read_weather_input env sam =
                  pd_read_csv env
                    (PStr (input_output_path env @ ''/project_data/az_rolling.srw''))"
    by (simp add: read_weather_input_path)
  have h1: "\<forall>e. read_weather_input env sam = Inl e \<longrightarrow>
                m = dict_set master ''error'' (PDict (dict_set errs ''Weather_Data'' (PExc e)))"
    using f weather_try_read_fails [of env sam _ master] by simp
  have h2: "\<forall>df. read_weather_input env sam = Inr df \<and> df_rows df \<noteq> 8760 \<longrightarrow>
                m = dict_set master ''error''
                      (PDict (dict_set errs ''Weather_Data'' (PExc ValueError)))"
    using f weather_try_wrong_row_count [of env sam _ master] by simp
  have h3: "\<forall>df. read_weather_input env sam = Inr df \<and> length df < 4 \<longrightarrow>
                m = dict_set master ''error''
                      (PDict (dict_set errs ''Weather_Data''
                         (PExc (if df_rows df = 8760 \<and> PStr ''time'' \<notin> set (map fst df)
                                then IndexError else ValueError))))"
  proof (intro allI impI)
    fix df assume a: "read_weather_input env sam = Inr df \<and> length df < 4"
    from weather_try_too_few_columns [of env sam df master] a
    have "weather_try env sam master =
       Inl (if df_rows df = 8760 \<and> PStr ''time'' \<notin> set (map fst df) then IndexError
            else ValueError)" by simp
    with f show "m = dict_set master ''error''
                      (PDict (dict_set errs ''Weather_Data''
                         (PExc (if df_rows df = 8760 \<and> PStr ''time'' \<notin> set (map fst df)
                                then IndexError else ValueError))))"
      by simp
  qed
  show ?thesis
    apply (rule exI [of _ errs])
    apply (rule exI [of _ m])
    apply (intro conjI)
    apply (rule errs)
    apply (rule w)
    apply (rule r)
    apply (rule f)
    apply (rule g)
    apply (rule p1)
    apply (rule p2)
    apply (rule h1)
    apply (rule h2)
    apply (rule h3)
    done
qed

lemma ex_validation_valid:
  "validation_stage ex_env ex_master0 ex_sam_inputs = Inr ex_master_valid"
  by (simp add: validation_defs ex_env_def ex_master0_def ex_sam_inputs_def ex_master_valid_def)

lemma ex_validation_missing_weather:
  "validation_stage ex_env ex_master0 ex_sam_missing_weather = Inr ex_master_valid"
  by (simp add: validation_defs ex_env_def ex_master0_def ex_sam_inputs_def ex_master_valid_def
        ex_sam_missing_weather_def)

lemma ex_weather_frame_insert:
  "df_insert_first (df_reset_index ex_weather_frame) (PStr ''time'') (default_date_time ex_env) =
     Inr ((PStr ''time'', default_date_time ex_env) # ex_weather_frame)"
  by (simp add: df_insert_first_def df_reset_index_def length_default_date_time df_rows_def
        ex_weather_frame_def ex_weather_column_def)

lemma ex_weather_try:
  assumes "map_of sam ''weather_file_path'' = None"
  shows "weather_try ex_env sam master = Inr (dict_set master ''weather_window'' (PObj 2))"
proof -
  let ?t = "default_date_time ex_env"
  let ?c = "ex_weather_column"
  let ?df = "(PStr ''time'', ?t) # ex_weather_frame"
  let ?rc = "[(PStr ''time'', ''Date UTC''), (PInt 0, ''Temp C''), (PInt 1, ''Pressure atm''),
              (PInt 2, ''Direction deg''), (PInt 3, ''Speed m per s'')]"
  let ?wd = "[(PStr ''Date UTC'', ?t), (PStr ''Temp C'', ?c), (PStr ''Pressure atm'', ?c),
              (PStr ''Direction deg'', ?c), (PStr ''Speed m per s'', ?c), (PInt 4, ?c)]"
  have rd: "read_weather_input ex_env sam = Inr ex_weather_frame"
    using assms by (simp add: read_weather_input_path ex_env_def)
  have ww: "read_weather_window ex_env df = Inr (PObj 2)" for df by (simp add: ex_env_def)
  have cn: "df_column_name ?df 0 = Inr (PStr ''time'')" "df_column_name ?df 1 = Inr (PInt 0)"
    "df_column_name ?df 2 = Inr (PInt 1)" "df_column_name ?df 3 = Inr (PInt 2)"
    "df_column_name ?df 4 = Inr (PInt 3)" "df_column_name ?df (Suc 0) = Inr (PInt 0)"
    by (simp_all add: df_column_name_def ex_weather_frame_def)
  have rc: "AList.update (PInt 3) ''Speed m per s''
               (AList.update (PInt 2) ''Direction deg''
                 (AList.update (PInt 1) ''Pressure atm''
                   (AList.update (PInt 0) ''Temp C''
                     (AList.update (PStr ''time'') ''Date UTC'' [])))) = ?rc"
    by simp
  have rn: "df_reset_index (df_rename ?df ?rc) = ?wd"
    by (simp add: df_rename_def df_reset_index_def ex_weather_frame_def)
  have sel: "df_select ?wd (map snd ?rc) = Inr (take 5 ?wd)"
    by simp
  show ?thesis
    using assms
    by (simp add: weather_try_def rd ex_weather_frame_insert cn rc rn sel ww
          del: AList.update.simps df_select.simps take_Suc_Cons list.map)
qed

section \<open>Properties of the whole run\<close>

lemma ex_missing_weather_hyps:
  "''error'' \<notin> fst ` set ex_sam_missing_weather"
  "map_of ex_sam_missing_weather ''weather_file_path'' = Some (PStr ''/tmp/missing.srw'')"
  "pd_read_csv ex_env (PStr ''/tmp/missing.srw'') = Inl (Exception ''No such file or directory'')"
  "map_of ex_master_valid ''error'' = Some (PDict [])"
  by (simp_all add: ex_sam_missing_weather_def ex_sam_inputs_def ex_env_def ex_master_valid_def)

lemma ex_short_weather_hyps:
  "''error'' \<notin> fst ` set ex_sam_inputs"
  "map_of ex_sam_inputs ''weather_file_path'' = None"
  "pd_read_csv ex_env_short_weather p = Inr ex_short_weather_frame"
  "df_rows ex_short_weather_frame = 10"
  "validation_stage ex_env_short_weather ex_master0 ex_sam_inputs = Inr ex_master_valid"
  by (simp_all add: ex_sam_inputs_def ex_env_short_weather_def ex_short_weather_frame_def
        df_rows_def validation_defs ex_env_def ex_master0_def ex_master_valid_def)

text \<open>
  The theorem at the sample inputs with a weather file that cannot be read, and at the
  sample inputs with a packaged weather file of ten rows.
\<close>

theorem weather_failure_is_recorded_witness:
  "validation_stage ex_env ex_master0 ex_sam_missing_weather = Inr ex_master_valid \<and>
   read_weather_input ex_env ex_sam_missing_weather =
     Inl (Exception ''No such file or directory'') \<and>
   weather_stage ex_env ex_sam_missing_weather ex_master_valid =
     Inr (dict_set ex_master_valid ''error''
            (PDict [(''Weather_Data'', PExc (Exception ''No such file or directory''))])) \<and>
   run_landbosse_state ex_env ex_master0 ex_sam_missing_weather =
     after_weather ex_env
       (dict_set ex_master_valid ''error''
          (PDict [(''Weather_Data'', PExc (Exception ''No such file or directory''))])) \<and>
   validation_stage ex_env_short_weather ex_master0 ex_sam_inputs = Inr ex_master_valid \<and>
   read_weather_input ex_env_short_weather ex_sam_inputs = Inr ex_short_weather_frame \<and>
   df_rows ex_short_weather_frame = 10 \<and>
   weather_stage ex_env_short_weather ex_sam_inputs ex_master_valid =
     Inr (dict_set ex_master_valid ''error'' (PDict [(''Weather_Data'', PExc ValueError)]))"
proof -
  from weather_failure_is_recorded [OF ex_validation_missing_weather ex_missing_weather_hyps(1)]
  obtain errs m where
    a: "map_of ex_master_valid ''error'' = Some (PDict errs)"
       "weather_stage ex_env ex_sam_missing_weather ex_master_valid = Inr m"
       "run_landbosse_state ex_env ex_master0 ex_sam_missing_weather = after_weather ex_env m"
       "\<forall>path. map_of ex_sam_missing_weather ''weather_file_path'' = Some path \<longrightarrow>
            read_weather_input ex_env ex_sam_missing_weather = pd_read_csv ex_env path"
       "\<forall>e. read_weather_input ex_env ex_sam_missing_weather = Inl e \<longrightarrow>
            m = dict_set ex_master_valid ''error'' (PDict (dict_set errs ''Weather_Data'' (PExc e)))"
    by blast
  from a(4) ex_missing_weather_hyps(2) ex_missing_weather_hyps(3)
  have rd: "read_weather_input ex_env ex_sam_missing_weather =
      Inl (Exception ''No such file or directory'')" by simp
  from a(1) ex_missing_weather_hyps(4) have "errs = []" by simp
  with a(5) rd have "m = dict_set ex_master_valid ''error''
            (PDict [(''Weather_Data'', PExc (Exception ''No such file or directory''))])"
    by simp
  with a(2) a(3) have first:
    "weather_stage ex_env ex_sam_missing_weather ex_master_valid =
       Inr (dict_set ex_master_valid ''error''
              (PDict [(''Weather_Data'', PExc (Exception ''No such file or directory''))]))"
    "run_landbosse_state ex_env ex_master0 ex_sam_missing_weather =
       after_weather ex_env
         (dict_set ex_master_valid ''error''
            (PDict [(''Weather_Data'', PExc (Exception ''No such file or directory''))]))"
    by simp_all
  from weather_failure_is_recorded [OF ex_short_weather_hyps(5) ex_short_weather_hyps(1)]
  obtain errs' m' where
    b: "map_of ex_master_valid ''error'' = Some (PDict errs')"
       "weather_stage ex_env_short_weather ex_sam_inputs ex_master_valid = Inr m'"
       "map_of ex_sam_inputs ''weather_file_path'' = None \<longrightarrow>
          read_weather_input ex_env_short_weather ex_sam_inputs =
            pd_read_csv ex_env_short_weather
              (PStr (input_output_path ex_env_short_weather @ ''/project_data/az_rolling.srw''))"
       "\<forall>df. read_weather_input ex_env_short_weather ex_sam_inputs = Inr df \<and>
             df_rows df \<noteq> 8760 \<longrightarrow>
            m' = dict_set ex_master_valid ''error''
                   (PDict (dict_set errs' ''Weather_Data'' (PExc ValueError)))"
    by (elim exE conjE) (rule that, assumption+)
  from b(3) ex_short_weather_hyps(2) ex_short_weather_hyps(3)
  have rd': "read_weather_input ex_env_short_weather ex_sam_inputs = Inr ex_short_weather_frame"
    by simp
  from b(1) ex_missing_weather_hyps(4) have "errs' = []" by simp
  with b(4) rd' ex_short_weather_hyps(4)
  have "m' = dict_set ex_master_valid ''error'' (PDict [(''Weather_Data'', PExc ValueError)])"
    by simp
  with b(2) have second:
    "weather_stage ex_env_short_weather ex_sam_inputs ex_master_valid =
       Inr (dict_set ex_master_valid ''error'' (PDict [(''Weather_Data'', PExc ValueError)]))"
    by simp
  from ex_validation_missing_weather rd first ex_short_weather_hyps(5) rd'
    ex_short_weather_hyps(4) second
  show ?thesis by simp
qed

lemma run_landbosse_state_Inr:
  assumes "run_landbosse_state env master0 sam = Inr (st, results)"
  shows "\<exists>m1 m2 m3. validation_stage env master0 sam = Inr m1 \<and>
           weather_stage env sam m1 = Inr m2 \<and>
           refactor_components env m2 = Inr m3 \<and>
           run_manager env m3 = Inr st \<and>
           project_results env (master_input_dict st) (output_dict st) = Inr results"
  using assms
  by (auto simp: run_landbosse_state_def after_weather_def bind_r_Inr_iff)

lemma run_manager_Inr:
  assumes "run_manager env m = Inr st"
  shows "manager_calls st = [''SAM_Run''] \<and>
         execute_landbosse env m [] ''SAM_Run'' = Inr (master_input_dict st, output_dict st)"
  using assms by (auto simp: run_manager_def Let_def bind_r_Inr_iff)

lemma project_results_errors:
  assumes "map_of master ''error'' = Some (PDict errs)" and "errs \<noteq> []"
  shows "project_results env master out = Inr [(''errors'', PList (error_messages env errs))]"
  using assms by (simp add: project_results_def Let_def dict_get_Some)

text \<open>
  Claim C5, amended. Every run of \<open>run_landbosse\<close> that returns has called
  \<^verbatim>\<open>Manager.execute_landbosse\<close> exactly once, with the project id \<^verbatim>\<open>SAM_Run\<close>,
  whether or not the error map is empty; the dictionaries at the return are those the
  manager returned. The error map is read only afterwards: when it is not empty the result
  holds the error messages and nothing else.
\<close>

theorem run_always_invokes_manager:
  assumes "run_landbosse_state env master0 sam = Inr (st, results)"
  shows "manager_calls st = [''SAM_Run''] \<and>
         (\<exists>m. execute_landbosse env m [] ''SAM_Run'' = Inr (master_input_dict st, output_dict st)) \<and>
         (\<forall>errs. map_of (master_input_dict st) ''error'' = Some (PDict errs) \<and> errs \<noteq> [] \<longrightarrow>
            results = [(''errors'', PList (error_messages env errs))])"
proof -
  from run_landbosse_state_Inr [OF assms] obtain m3 where
    rm: "run_manager env m3 = Inr st"
    and pr: "project_results env (master_input_dict st) (output_dict st) = Inr results" by blast
  from run_manager_Inr [OF rm] pr show ?thesis
    by (auto simp: project_results_errors)
qed

lemmas refactor_defs = refactor_components_def refactor_nacelle_def refactor_hub_def
  refactor_blades_def refactor_tower_def

lemma ex_refactor_components:
  assumes "map_of master ''turbine_rating_MW'' = Some r" "map_of master ''hub_height_meters'' = Some h"
    "map_of master ''rotor_diameter_m'' = Some d" "map_of master ''component_data'' = Some c"
  shows "refactor_components ex_env master = Inr (dict_set master ''component_data'' c)"
proof -
  have idem: "dict_set (dict_set m ''component_data'' c) ''component_data'' c = dict_set m ''component_data'' c" for m
    by (simp add: dict_set_def update_last)
  have e: "nacelle_mass ex_env = (\<lambda>rating. Inr (PFloat 50))"
    "edit_nacelle_info ex_env = (\<lambda>components mass hub_height. Inr components)"
    "hub_mass ex_env = (\<lambda>rating. Inr (PFloat 20))"
    "edit_hub_info ex_env = (\<lambda>components mass hub_height. Inr components)"
    "blade_mass_ton ex_env = (\<lambda>rotor_diameter. Inr (PFloat 30))"
    "edit_blade_info ex_env = (\<lambda>components mass hub_height rotor_diameter. Inr components)"
    "tower_mass ex_env = (\<lambda>rating hub_height. Inr (PFloat 120))"
    "tower_specs ex_env = (\<lambda>hub_height mass. Inr (PInt 4, PFloat 20))"
    "edit_tower_sections ex_env = (\<lambda>components sections mass height. Inr components)"
    "component_reset_index ex_env = (\<lambda>components. Inr components)"
    by (simp_all add: ex_env_def)
  show ?thesis using assms
    by (simp add: refactor_defs e dict_get_Some idem)
qed


lemma ex_weather_stage_invalid:
  "weather_stage ex_env ex_sam_invalid ex_master_invalid =
     Inr (dict_set ex_master_invalid ''weather_window'' (PObj 2))"
proof -
  have "map_of ex_sam_invalid ''weather_file_path'' = None" by (simp add: ex_sam_invalid_def)
  from ex_weather_try [OF this] show ?thesis by (simp add: weather_stage_def)
qed

lemma ex_invalid_master_keys:
  "map_of (dict_set ex_master_invalid ''weather_window'' (PObj 2)) ''turbine_rating_MW'' = Some (PInt 9)"
  "map_of (dict_set ex_master_invalid ''weather_window'' (PObj 2)) ''hub_height_meters'' = Some (PInt 80)"
  "map_of (dict_set ex_master_invalid ''weather_window'' (PObj 2)) ''rotor_diameter_m'' = Some (PInt 77)"
  "map_of (dict_set ex_master_invalid ''weather_window'' (PObj 2)) ''component_data'' = Some (PObj 0)"
  by (simp_all add: ex_master_invalid_def)

lemma ex_invalid_components_unchanged:
  "dict_set (dict_set ex_master_invalid ''weather_window'' (PObj 2)) ''component_data'' (PObj 0) =
   dict_set ex_master_invalid ''weather_window'' (PObj 2)"
  by (simp add: ex_master_invalid_def)

lemma ex_invalid_error_map:
  "map_of (dict_set ex_master_invalid ''weather_window'' (PObj 2)) ''error'' =
     Some (PDict [(''NegativeInputError'', negative_input_msg ''depth''),
                  (''TurbineNumberError'', turbine_number_msg),
                  (''LargeTurbineSizeError'', large_turbine_msg)])"
  by (simp add: ex_master_invalid_def)

lemma ex_error_messages:
  "[(''errors'', PList (error_messages ex_env
       [(''NegativeInputError'', negative_input_msg ''depth''),
        (''TurbineNumberError'', turbine_number_msg),
        (''LargeTurbineSizeError'', large_turbine_msg)]))] = ex_error_report"
  by (simp add: error_messages_def ex_error_report_def negative_input_msg_def py_str_def
        turbine_number_msg_def large_turbine_msg_def)

lemma ex_refactor_invalid:
  "refactor_components ex_env (dict_set ex_master_invalid ''weather_window'' (PObj 2)) =
     Inr (dict_set ex_master_invalid ''weather_window'' (PObj 2))"
  using ex_refactor_components [OF ex_invalid_master_keys]
  by (simp only: ex_invalid_components_unchanged)

lemma ex_run_invalid:
  "run_landbosse_state ex_env ex_master0 ex_sam_invalid =
     Inr (\<lparr>master_input_dict = dict_set ex_master_invalid ''weather_window'' (PObj 2),
           output_dict = ex_output_dict, manager_calls = [''SAM_Run'']\<rparr>, ex_error_report)"
proof -
  have ex: "execute_landbosse ex_env m out pid = Inr (m, ex_output_dict)" for m out pid
    by (simp add: ex_env_def)
  have pr: "project_results ex_env (dict_set ex_master_invalid ''weather_window'' (PObj 2)) ex_output_dict
      = Inr ex_error_report"
    using project_results_errors [OF ex_invalid_error_map, of ex_env ex_output_dict]
    by (simp only: ex_error_messages) simp
  show ?thesis
    by (simp add: run_landbosse_state_def ex_validation_invalid ex_weather_stage_invalid
          after_weather_def ex_refactor_invalid run_manager_def ex pr Let_def)
qed

lemma ex_run_invalid_manager_raises:
  "run_landbosse ex_env_manager_raises ex_master0 ex_sam_invalid = Inl (Exception ''module failed'')"
proof -
  have v: "validation_stage ex_env_manager_raises = validation_stage ex_env"
    by (intro ext) (simp add: validation_stage_def update_labor_multiplier_def
          ex_env_manager_raises_def)
  have rd: "read_weather_data ex_env_manager_raises = read_weather_data ex_env"
    by (intro ext) (simp add: read_weather_data_def ex_env_manager_raises_def)
  have dd: "default_date_time ex_env_manager_raises = default_date_time ex_env"
    by (simp add: default_date_time_def ex_env_manager_raises_def)
  have io: "input_output_path ex_env_manager_raises = input_output_path ex_env"
    by (simp add: ex_env_manager_raises_def)
  have rw: "read_weather_window ex_env_manager_raises = read_weather_window ex_env"
    by (simp add: ex_env_manager_raises_def)
  have ri: "read_weather_input ex_env_manager_raises = read_weather_input ex_env"
    by (intro ext) (simp only: read_weather_input_def rd io)
  have wt: "weather_try ex_env_manager_raises = weather_try ex_env"
    by (intro ext) (simp only: weather_try_def ri dd rw)
  have w: "weather_stage ex_env_manager_raises = weather_stage ex_env"
    by (intro ext) (simp add: weather_stage_def wt)
  have r: "refactor_components ex_env_manager_raises = refactor_components ex_env"
    by (intro ext) (simp add: refactor_defs ex_env_manager_raises_def)
  have ex: "execute_landbosse ex_env_manager_raises m out pid = Inl (Exception ''module failed'')"
    for m out pid by (simp add: ex_env_manager_raises_def)
  show ?thesis
    by (simp add: run_landbosse_def run_landbosse_state_def v w r ex_validation_invalid
          ex_weather_stage_invalid after_weather_def ex_refactor_invalid run_manager_def ex Let_def)
qed

text \<open>
  Claim C5, as stated, fails. For the invalid example inputs the error map holds three
  entries after the override-and-validation stage and after the weather stage, and the run
  calls the manager all the same: the call is in the state at the return, and with a
  manager that raises, the run raises the manager's exception instead of returning the
  error report.
\<close>

theorem manager_runs_on_error_path_counterexample:
  "validation_stage ex_env ex_master0 ex_sam_invalid = Inr ex_master_invalid \<and>
   weather_stage ex_env ex_sam_invalid ex_master_invalid =
     Inr (dict_set ex_master_invalid ''weather_window'' (PObj 2)) \<and>
   map_of (dict_set ex_master_invalid ''weather_window'' (PObj 2)) ''error'' =
     Some (PDict [(''NegativeInputError'', negative_input_msg ''depth''),
                  (''TurbineNumberError'', turbine_number_msg),
                  (''LargeTurbineSizeError'', large_turbine_msg)]) \<and>
   run_landbosse_state ex_env ex_master0 ex_sam_invalid =
     Inr (\<lparr>master_input_dict = dict_set ex_master_invalid ''weather_window'' (PObj 2),
           output_dict = ex_output_dict, manager_calls = [''SAM_Run'']\<rparr>, ex_error_report) \<and>
   run_landbosse ex_env_manager_raises ex_master0 ex_sam_invalid =
     Inl (Exception ''module failed'')"
  using ex_validation_invalid ex_weather_stage_invalid ex_invalid_error_map ex_run_invalid
    ex_run_invalid_manager_raises
  by simp

text \<open>The theorem at the invalid example inputs.\<close>

theorem run_always_invokes_manager_witness:
  "run_landbosse_state ex_env ex_master0 ex_sam_invalid =
     Inr (\<lparr>master_input_dict = dict_set ex_master_invalid ''weather_window'' (PObj 2),
           output_dict = ex_output_dict, manager_calls = [''SAM_Run'']\<rparr>, ex_error_report) \<and>
   execute_landbosse ex_env (dict_set ex_master_invalid ''weather_window'' (PObj 2)) [] ''SAM_Run'' =
     Inr (dict_set ex_master_invalid ''weather_window'' (PObj 2), ex_output_dict) \<and>
   ex_error_report =
     [(''errors'', PList (error_messages ex_env
        [(''NegativeInputError'', negative_input_msg ''depth''),
         (''TurbineNumberError'', turbine_number_msg),
         (''LargeTurbineSizeError'', large_turbine_msg)]))]"
proof -
  from run_always_invokes_manager [OF ex_run_invalid]
  have "\<forall>errs. map_of (dict_set ex_master_invalid ''weather_window'' (PObj 2)) ''error'' =
            Some (PDict errs) \<and> errs \<noteq> [] \<longrightarrow>
          ex_error_report = [(''errors'', PList (error_messages ex_env errs))]"
    by simp
  with ex_invalid_error_map have
    "ex_error_report =
     [(''errors'', PList (error_messages ex_env
        [(''NegativeInputError'', negative_input_msg ''depth''),
         (''TurbineNumberError'', turbine_number_msg),
         (''LargeTurbineSizeError'', large_turbine_msg)]))]"
    by blast
  moreover have "execute_landbosse ex_env (dict_set ex_master_invalid ''weather_window'' (PObj 2)) []
      ''SAM_Run'' = Inr (dict_set ex_master_invalid ''weather_window'' (PObj 2), ex_output_dict)"
    by (simp add: ex_env_def)
  ultimately show ?thesis using ex_run_invalid by simp
qed

section \<open>Properties of the results\<close>

lemma copy_outputs_other:
  "copy_outputs pairs out res = Inr res' \<Longrightarrow> k \<notin> fst ` set pairs \<Longrightarrow>
   map_of res' k = map_of res k"
proof (induction pairs arbitrary: res)
  case Nil
  then show ?case by simp
next
  case (Cons p pairs)
  obtain r ok where p: "p = (r, ok)" by (cases p)
  from Cons.prems(1) p obtain v where
    v: "dict_get out ok = Inr v" and c: "copy_outputs pairs out (dict_set res r v) = Inr res'"
    by (auto simp: bind_r_Inr_iff)
  from Cons.prems(2) p have "k \<noteq> r" "k \<notin> fst ` set pairs" by auto
  with Cons.IH [OF c] show ?case by simp
qed

lemma copy_outputs_present:
  "copy_outputs pairs out res = Inr res' \<Longrightarrow> k \<in> fst ` set pairs \<Longrightarrow>
   \<exists>ok v. (k, ok) \<in> set pairs \<and> map_of out ok = Some v \<and> map_of res' k = Some v"
proof (induction pairs arbitrary: res)
  case Nil
  then show ?case by simp
next
  case (Cons p pairs)
  obtain r ok where p: "p = (r, ok)" by (cases p)
  from Cons.prems(1) p obtain v where
    v: "dict_get out ok = Inr v" and c: "copy_outputs pairs out (dict_set res r v) = Inr res'"
    by (auto simp: bind_r_Inr_iff)
  show ?case
  proof (cases "k \<in> fst ` set pairs")
    case True
    from Cons.IH [OF c True] show ?thesis by auto
  next
    case False
    with Cons.prems(2) p have kr: "k = r" by auto
    from copy_outputs_other [OF c False] kr have "map_of res' k = Some v" by simp
    moreover from v have "map_of out ok = Some v" by (simp add: dict_get_Inr_iff)
    ultimately show ?thesis using p kr by auto
  qed
qed

lemma copy_outputs_total:
  "snd ` set pairs \<subseteq> dom (map_of out) \<Longrightarrow> \<exists>res'. copy_outputs pairs out res = Inr res'"
proof (induction pairs arbitrary: res)
  case Nil
  then show ?case by simp
next
  case (Cons p pairs)
  obtain r ok where p: "p = (r, ok)" by (cases p)
  from Cons.prems p obtain v where "map_of out ok = Some v" by auto
  then have v: "dict_get out ok = Inr v" by (rule dict_get_Some)
  from Cons.prems have "snd ` set pairs \<subseteq> dom (map_of out)" by auto
  from Cons.IH [OF this, of "dict_set res r v"] p v show ?case by simp
qed

lemma development_results_split:
  assumes "development_results master out res = Inr res'"
  obtains res1 where
    "(if dict_has out ''Development labor cost USD''
      then bind_r (dict_get master ''development_labor_cost_usd'')
             (\<lambda>v. Inr (dict_set res ''development_equipment_rental_usd'' v))
      else Inr res) = Inr res1"
    and "res' = dict_set (dict_set (dict_set res1
            ''development_labor_usd'' (PInt 0))
            ''development_material_usd'' (PInt 0))
            ''development_mobilization_usd'' (PInt 0)"
  using assms unfolding development_results_def bind_r_Inr_iff by blast

lemma development_results_zero:
  assumes "development_results master out res = Inr res'"
  shows "map_of res' ''development_labor_usd'' = Some (PInt 0)"
    and "map_of res' ''development_material_usd'' = Some (PInt 0)"
    and "map_of res' ''development_mobilization_usd'' = Some (PInt 0)"
proof -
  from assms obtain res1 where
    r: "res' = dict_set (dict_set (dict_set res1
            ''development_labor_usd'' (PInt 0))
            ''development_material_usd'' (PInt 0))
            ''development_mobilization_usd'' (PInt 0)"
    by (rule development_results_split)
  show "map_of res' ''development_labor_usd'' = Some (PInt 0)"
    and "map_of res' ''development_material_usd'' = Some (PInt 0)"
    and "map_of res' ''development_mobilization_usd'' = Some (PInt 0)"
    unfolding r by simp_all
qed

lemma development_results_rental:
  assumes "development_results master out res = Inr res'"
  shows "dict_has out ''Development labor cost USD'' \<Longrightarrow>
           map_of master ''development_labor_cost_usd'' \<noteq> None \<and>
           map_of res' ''development_equipment_rental_usd'' =
             map_of master ''development_labor_cost_usd''"
    and "\<not> dict_has out ''Development labor cost USD'' \<Longrightarrow>
           map_of res' ''development_equipment_rental_usd'' =
             map_of res ''development_equipment_rental_usd''"
proof -
  from assms obtain res1 where
    i: "(if dict_has out ''Development labor cost USD''
      then bind_r (dict_get master ''development_labor_cost_usd'')
             (\<lambda>v. Inr (dict_set res ''development_equipment_rental_usd'' v))
      else Inr res) = Inr res1"
    and r: "res' = dict_set (dict_set (dict_set res1
            ''development_labor_usd'' (PInt 0))
            ''development_material_usd'' (PInt 0))
            ''development_mobilization_usd'' (PInt 0)"
    by (rule development_results_split)
  have keep: "map_of res' ''development_equipment_rental_usd'' =
       map_of res1 ''development_equipment_rental_usd''"
    unfolding r by simp
  {
    assume h: "dict_has out ''Development labor cost USD''"
    with i have "bind_r (dict_get master ''development_labor_cost_usd'')
             (\<lambda>v. Inr (dict_set res ''development_equipment_rental_usd'' v)) = Inr res1"
      by simp
    then obtain v where v: "dict_get master ''development_labor_cost_usd'' = Inr v"
      and r1: "res1 = dict_set res ''development_equipment_rental_usd'' v"
      unfolding bind_r_Inr_iff by auto
    from v have "map_of master ''development_labor_cost_usd'' = Some v"
      by (simp add: dict_get_Inr_iff)
    with keep r1 show "map_of master ''development_labor_cost_usd'' \<noteq> None \<and>
           map_of res' ''development_equipment_rental_usd'' =
             map_of master ''development_labor_cost_usd''" by simp
  }
  {
    assume "\<not> dict_has out ''Development labor cost USD''"
    with i have "res1 = res" by simp
    with keep show "map_of res' ''development_equipment_rental_usd'' =
             map_of res ''development_equipment_rental_usd''" by simp
  }
qed

lemma development_results_other:
  assumes "development_results master out res = Inr res'"
    and "k \<noteq> ''development_equipment_rental_usd''" and "k \<noteq> ''development_labor_usd''"
    and "k \<noteq> ''development_material_usd''" and "k \<noteq> ''development_mobilization_usd''"
  shows "map_of res' k = map_of res k"
proof -
  from assms(1) obtain res1 where
    i: "(if dict_has out ''Development labor cost USD''
      then bind_r (dict_get master ''development_labor_cost_usd'')
             (\<lambda>v. Inr (dict_set res ''development_equipment_rental_usd'' v))
      else Inr res) = Inr res1"
    and r: "res' = dict_set (dict_set (dict_set res1
            ''development_labor_usd'' (PInt 0))
            ''development_material_usd'' (PInt 0))
            ''development_mobilization_usd'' (PInt 0)"
    by (rule development_results_split)
  have a: "map_of res' k = map_of res1 k"
    unfolding r using assms(3-5) by simp
  have b: "map_of res1 k = map_of res k"
  proof (cases "dict_has out ''Development labor cost USD''")
    case True
    with i have "bind_r (dict_get master ''development_labor_cost_usd'')
             (\<lambda>v. Inr (dict_set res ''development_equipment_rental_usd'' v)) = Inr res1"
      by simp
    then obtain v where "res1 = dict_set res ''development_equipment_rental_usd'' v"
      unfolding bind_r_Inr_iff by auto
    with assms(2) show ?thesis by simp
  next
    case False
    with i show ?thesis by simp
  qed
  from a b show ?thesis by simp
qed

lemma project_results_success:
  assumes "map_of master ''error'' = Some (PDict [])"
    and "project_results env master out = Inr results"
  shows "\<exists>r1 r2. copy_outputs management_and_development_keys out [(''errors'', PList [])] = Inr r1 \<and>
           development_results master out r1 = Inr r2 \<and>
           copy_outputs remaining_module_keys out r2 = Inr results"
  using assms
  by (auto simp: project_results_def Let_def dict_get_Some bind_r_Inr_iff)

lemma run_landbosse_of_state:
  "run_landbosse_state env master0 sam = Inr (st, results) \<Longrightarrow>
   run_landbosse env master0 sam = Inr results"
  by (simp add: run_landbosse_def)

lemma mgmt_keys_facts:
  "''errors'' \<notin> fst ` set management_and_development_keys"
  "(''total_bos_cost'', ok) \<in> set management_and_development_keys \<Longrightarrow> ok = ''project_value_usd''"
  "''total_bos_cost'' \<in> fst ` set management_and_development_keys"
  "''development_equipment_rental_usd'' \<notin> fst ` set management_and_development_keys"
  by (simp_all add: management_and_development_keys_def)

lemma remaining_keys_facts:
  "''errors'' \<notin> fst ` set remaining_module_keys"
  "''total_bos_cost'' \<notin> fst ` set remaining_module_keys"
  "''development_equipment_rental_usd'' \<notin> fst ` set remaining_module_keys"
  "''development_labor_usd'' \<notin> fst ` set remaining_module_keys"
  "''development_material_usd'' \<notin> fst ` set remaining_module_keys"
  "''development_mobilization_usd'' \<notin> fst ` set remaining_module_keys"
  by (simp_all add: remaining_module_keys_def)

lemma mgmt_keys_not_dev:
  assumes "k \<in> fst ` set management_and_development_keys"
  shows "k \<noteq> ''development_equipment_rental_usd''" and "k \<noteq> ''development_labor_usd''"
    and "k \<noteq> ''development_material_usd''" and "k \<noteq> ''development_mobilization_usd''"
proof -
  have "''development_equipment_rental_usd'' \<notin> fst ` set management_and_development_keys"
    "''development_labor_usd'' \<notin> fst ` set management_and_development_keys"
    "''development_material_usd'' \<notin> fst ` set management_and_development_keys"
    "''development_mobilization_usd'' \<notin> fst ` set management_and_development_keys"
    by (simp_all add: management_and_development_keys_def)
  note n = this
  show "k \<noteq> ''development_equipment_rental_usd''"
  proof
    assume "k = ''development_equipment_rental_usd''"
    with assms n(1) show False by simp
  qed
  show "k \<noteq> ''development_labor_usd''"
  proof
    assume "k = ''development_labor_usd''"
    with assms n(2) show False by simp
  qed
  show "k \<noteq> ''development_material_usd''"
  proof
    assume "k = ''development_material_usd''"
    with assms n(3) show False by simp
  qed
  show "k \<noteq> ''development_mobilization_usd''"
  proof
    assume "k = ''development_mobilization_usd''"
    with assms n(4) show False by simp
  qed
qed

text \<open>
  Claim C9. For every run of \<open>run_landbosse\<close> that returns with an empty error map, the
  returned dictionary holds the key \<^verbatim>\<open>errors\<close> with the empty list, the key
  \<^verbatim>\<open>total_bos_cost\<close> with the value of \<^verbatim>\<open>project_value_usd\<close> of the output
  dictionary, and every cost field that the results copy from the output dictionary.
\<close>

theorem successful_run_result_has_errors_key:
  assumes "run_landbosse_state env master0 sam = Inr (st, results)"
    and "map_of (master_input_dict st) ''error'' = Some (PDict [])"
  shows "run_landbosse env master0 sam = Inr results \<and>
         map_of results ''errors'' = Some (PList []) \<and>
         dict_has results ''total_bos_cost'' \<and>
         map_of results ''total_bos_cost'' = map_of (output_dict st) ''project_value_usd'' \<and>
         (\<forall>k \<in> fst ` set (management_and_development_keys @ remaining_module_keys).
            dict_has results k)"
proof -
  from run_landbosse_state_Inr [OF assms(1)]
  have pr: "project_results env (master_input_dict st) (output_dict st) = Inr results" by blast
  from project_results_success [OF assms(2) pr] obtain r1 r2 where
    c1: "copy_outputs management_and_development_keys (output_dict st) [(''errors'', PList [])] = Inr r1"
    and d: "development_results (master_input_dict st) (output_dict st) r1 = Inr r2"
    and c2: "copy_outputs remaining_module_keys (output_dict st) r2 = Inr results" by blast
  have e1: "map_of r1 ''errors'' = Some (PList [])"
    using copy_outputs_other [OF c1 mgmt_keys_facts(1)] by simp
  have e2: "map_of r2 ''errors'' = Some (PList [])"
    using development_results_other [OF d, of "''errors''"] e1 by simp
  have e: "map_of results ''errors'' = Some (PList [])"
    using copy_outputs_other [OF c2 remaining_keys_facts(1)] e2 by simp
  from copy_outputs_present [OF c1 mgmt_keys_facts(3)] obtain ok v where
    "(''total_bos_cost'', ok) \<in> set management_and_development_keys"
    "map_of (output_dict st) ok = Some v" "map_of r1 ''total_bos_cost'' = Some v" by blast
  with mgmt_keys_facts(2) have t1: "map_of (output_dict st) ''project_value_usd'' = Some v"
    "map_of r1 ''total_bos_cost'' = Some v" by auto
  have t2: "map_of r2 ''total_bos_cost'' = Some v"
    using development_results_other [OF d, of "''total_bos_cost''"] t1(2) by simp
  have t: "map_of results ''total_bos_cost'' = Some v"
    using copy_outputs_other [OF c2 remaining_keys_facts(2)] t2 by simp
  have all: "dict_has results k"
    if k: "k \<in> fst ` set (management_and_development_keys @ remaining_module_keys)" for k
  proof (cases "k \<in> fst ` set remaining_module_keys")
    case True
    from copy_outputs_present [OF c2 True] show ?thesis by (auto simp: dict_has_def)
  next
    case False
    with k have km: "k \<in> fst ` set management_and_development_keys" by auto
    from copy_outputs_present [OF c1 km] obtain w where "map_of r1 k = Some w" by blast
    with development_results_other [OF d mgmt_keys_not_dev [OF km]]
    have "map_of r2 k = Some w" by simp
    with copy_outputs_other [OF c2 False] show ?thesis by (simp add: dict_has_def)
  qed
  from run_landbosse_of_state [OF assms(1)] e t t1(1) all show ?thesis
    by (simp add: dict_has_def)
qed

text \<open>
  Claim C10. For every run of \<open>run_landbosse\<close> that returns with an empty error map, the
  fields \<^verbatim>\<open>development_labor_usd\<close>, \<^verbatim>\<open>development_material_usd\<close> and
  \<^verbatim>\<open>development_mobilization_usd\<close> of the result are the integer 0 whatever the output
  dictionary holds, and \<^verbatim>\<open>development_equipment_rental_usd\<close> is a key of the result
  exactly when \<^verbatim>\<open>Development labor cost USD\<close> is a key of the output dictionary; its
  value is then \<^verbatim>\<open>development_labor_cost_usd\<close> of the master input dictionary.
\<close>

theorem development_fields_of_successful_run:
  assumes "run_landbosse_state env master0 sam = Inr (st, results)"
    and "map_of (master_input_dict st) ''error'' = Some (PDict [])"
  shows "map_of results ''development_labor_usd'' = Some (PInt 0) \<and>
         map_of results ''development_material_usd'' = Some (PInt 0) \<and>
         map_of results ''development_mobilization_usd'' = Some (PInt 0) \<and>
         (dict_has results ''development_equipment_rental_usd'' \<longleftrightarrow>
            dict_has (output_dict st) ''Development labor cost USD'') \<and>
         (dict_has (output_dict st) ''Development labor cost USD'' \<longrightarrow>
            map_of results ''development_equipment_rental_usd'' =
              map_of (master_input_dict st) ''development_labor_cost_usd'')"
proof -
  from run_landbosse_state_Inr [OF assms(1)]
  have pr: "project_results env (master_input_dict st) (output_dict st) = Inr results" by blast
  from project_results_success [OF assms(2) pr] obtain r1 r2 where
    c1: "copy_outputs management_and_development_keys (output_dict st) [(''errors'', PList [])] = Inr r1"
    and d: "development_results (master_input_dict st) (output_dict st) r1 = Inr r2"
    and c2: "copy_outputs remaining_module_keys (output_dict st) r2 = Inr results" by blast
  note z = development_results_zero [OF d]
  note rt = development_results_rental [OF d]
  have r1: "map_of r1 ''development_equipment_rental_usd'' = None"
    using copy_outputs_other [OF c1 mgmt_keys_facts(4)] by simp
  have keep: "map_of results ''development_equipment_rental_usd'' =
                map_of r2 ''development_equipment_rental_usd''"
    "map_of results ''development_labor_usd'' = map_of r2 ''development_labor_usd''"
    "map_of results ''development_material_usd'' = map_of r2 ''development_material_usd''"
    "map_of results ''development_mobilization_usd'' = map_of r2 ''development_mobilization_usd''"
    using copy_outputs_other [OF c2 remaining_keys_facts(3)]
      copy_outputs_other [OF c2 remaining_keys_facts(4)]
      copy_outputs_other [OF c2 remaining_keys_facts(5)]
      copy_outputs_other [OF c2 remaining_keys_facts(6)] by simp_all
  show ?thesis
  proof (cases "dict_has (output_dict st) ''Development labor cost USD''")
    case True
    from rt(1) [OF True] z keep True show ?thesis by (simp add: dict_has_def)
  next
    case False
    from rt(2) [OF False] z keep r1 False show ?thesis by (simp add: dict_has_def)
  qed
qed

lemma project_results_returns:
  assumes "map_of master ''error'' = Some (PDict [])"
    and "snd ` set (management_and_development_keys @ remaining_module_keys) \<subseteq> dom (map_of out)"
    and "dict_has out ''Development labor cost USD'' \<longrightarrow> dict_has master ''development_labor_cost_usd''"
  shows "\<exists>results. project_results env master out = Inr results"
proof -
  from assms(2) have a: "snd ` set management_and_development_keys \<subseteq> dom (map_of out)"
    and b: "snd ` set remaining_module_keys \<subseteq> dom (map_of out)" by auto
  from copy_outputs_total [OF a, of "[(''errors'', PList [])]"] obtain r1 where
    r1: "copy_outputs management_and_development_keys out [(''errors'', PList [])] = Inr r1" by blast
  have "\<exists>r2. development_results master out r1 = Inr r2"
  proof (cases "dict_has out ''Development labor cost USD''")
    case True
    with assms(3) obtain v where "map_of master ''development_labor_cost_usd'' = Some v"
      unfolding dict_has_def by blast
    then have "dict_get master ''development_labor_cost_usd'' = Inr v" by (rule dict_get_Some)
    with True show ?thesis by (simp add: development_results_def)
  next
    case False
    then show ?thesis by (simp add: development_results_def)
  qed
  then obtain r2 where r2: "development_results master out r1 = Inr r2" by blast
  from copy_outputs_total [OF b, of r2] obtain results where
    "copy_outputs remaining_module_keys out r2 = Inr results" by blast
  with r1 r2 assms(1) show ?thesis
    by (simp add: project_results_def Let_def dict_get_Some)
qed

lemma ex_weather_stage_valid:
  "weather_stage ex_env ex_sam_inputs ex_master_valid =
     Inr (dict_set ex_master_valid ''weather_window'' (PObj 2))"
proof -
  have "map_of ex_sam_inputs ''weather_file_path'' = None" by (simp add: ex_sam_inputs_def)
  from ex_weather_try [OF this] show ?thesis by (simp add: weather_stage_def)
qed

lemma ex_valid_master_keys:
  "map_of (dict_set ex_master_valid ''weather_window'' (PObj 2)) ''turbine_rating_MW'' = Some (PFloat 1.5)"
  "map_of (dict_set ex_master_valid ''weather_window'' (PObj 2)) ''hub_height_meters'' = Some (PInt 80)"
  "map_of (dict_set ex_master_valid ''weather_window'' (PObj 2)) ''rotor_diameter_m'' = Some (PInt 77)"
  "map_of (dict_set ex_master_valid ''weather_window'' (PObj 2)) ''component_data'' = Some (PObj 0)"
  by (simp_all add: ex_master_valid_def)

lemma ex_valid_components_unchanged:
  "dict_set (dict_set ex_master_valid ''weather_window'' (PObj 2)) ''component_data'' (PObj 0) =
   dict_set ex_master_valid ''weather_window'' (PObj 2)"
  by (simp add: ex_master_valid_def)

lemma ex_valid_master_facts:
  "map_of (dict_set ex_master_valid ''weather_window'' (PObj 2)) ''error'' = Some (PDict [])"
  "map_of (dict_set ex_master_valid ''weather_window'' (PObj 2)) ''development_labor_cost_usd'' =
     Some (PFloat 1000000)"
  by (simp_all add: ex_master_valid_def)

lemma ex_output_dict_lookup:
  "k \<in> set (''Development labor cost USD'' #
            remdups (map snd (management_and_development_keys @ remaining_module_keys))) \<Longrightarrow>
   map_of ex_output_dict k = Some (PFloat 1)"
proof -
  have "k \<in> set ks \<Longrightarrow> map_of (map (\<lambda>k. (k, v)) ks) k = Some v" for ks :: "string list" and v :: pyval
    by (induction ks) auto
  then show "k \<in> set (''Development labor cost USD'' #
            remdups (map snd (management_and_development_keys @ remaining_module_keys))) \<Longrightarrow>
   map_of ex_output_dict k = Some (PFloat 1)"
    unfolding ex_output_dict_def by blast
qed

lemma ex_run_valid:
  "\<exists>results. run_landbosse_state ex_env ex_master0 ex_sam_inputs =
     Inr (\<lparr>master_input_dict = dict_set ex_master_valid ''weather_window'' (PObj 2),
           output_dict = ex_output_dict, manager_calls = [''SAM_Run'']\<rparr>, results)"
proof -
  have ex: "execute_landbosse ex_env m out pid = Inr (m, ex_output_dict)" for m out pid
    by (simp add: ex_env_def)
  have rf: "refactor_components ex_env (dict_set ex_master_valid ''weather_window'' (PObj 2)) =
     Inr (dict_set ex_master_valid ''weather_window'' (PObj 2))"
    using ex_refactor_components [OF ex_valid_master_keys]
    by (simp only: ex_valid_components_unchanged)
  have dom: "snd ` set (management_and_development_keys @ remaining_module_keys)
       \<subseteq> dom (map_of ex_output_dict)"
  proof
    fix k assume "k \<in> snd ` set (management_and_development_keys @ remaining_module_keys)"
    then have "k \<in> set (''Development labor cost USD'' #
            remdups (map snd (management_and_development_keys @ remaining_module_keys)))"
      by auto
    from ex_output_dict_lookup [OF this] show "k \<in> dom (map_of ex_output_dict)" by auto
  qed
  have "dict_has ex_output_dict ''Development labor cost USD'' \<longrightarrow>
        dict_has (dict_set ex_master_valid ''weather_window'' (PObj 2)) ''development_labor_cost_usd''"
    using ex_valid_master_facts(2) by (simp add: dict_has_def)
  from project_results_returns [OF ex_valid_master_facts(1) dom this, of ex_env]
  obtain results where
    "project_results ex_env (dict_set ex_master_valid ''weather_window'' (PObj 2)) ex_output_dict
       = Inr results" by blast
  then have "run_landbosse_state ex_env ex_master0 ex_sam_inputs =
     Inr (\<lparr>master_input_dict = dict_set ex_master_valid ''weather_window'' (PObj 2),
           output_dict = ex_output_dict, manager_calls = [''SAM_Run'']\<rparr>, results)"
    by (simp add: run_landbosse_state_def ex_validation_valid ex_weather_stage_valid
          after_weather_def rf run_manager_def ex Let_def)
  then show ?thesis by blast
qed

text \<open>The theorem at the sample inputs, with collaborators that all succeed.\<close>

theorem successful_run_result_has_errors_key_witness:
  "\<exists>results. run_landbosse ex_env ex_master0 ex_sam_inputs = Inr results \<and>
     map_of results ''errors'' = Some (PList []) \<and>
     map_of results ''total_bos_cost'' = Some (PFloat 1) \<and>
     dict_has results ''total_substation_cost''"
proof -
  from ex_run_valid obtain results where
    r: "run_landbosse_state ex_env ex_master0 ex_sam_inputs =
     Inr (\<lparr>master_input_dict = dict_set ex_master_valid ''weather_window'' (PObj 2),
           output_dict = ex_output_dict, manager_calls = [''SAM_Run'']\<rparr>, results)" by blast
  have e: "map_of (master_input_dict \<lparr>master_input_dict = dict_set ex_master_valid ''weather_window'' (PObj 2),
           output_dict = ex_output_dict, manager_calls = [''SAM_Run'']\<rparr>) ''error'' = Some (PDict [])"
    using ex_valid_master_facts(1) by simp
  have pv: "map_of ex_output_dict ''project_value_usd'' = Some (PFloat 1)"
    by (rule ex_output_dict_lookup) (simp add: management_and_development_keys_def)
  have sub: "''total_substation_cost'' \<in>
     fst ` set (management_and_development_keys @ remaining_module_keys)"
    by (simp add: remaining_module_keys_def)
  note t = successful_run_result_has_errors_key [OF r e]
  from t have all: "\<forall>k \<in> fst ` set (management_and_development_keys @ remaining_module_keys).
            dict_has results k" by blast
  from bspec [OF all sub] have s: "dict_has results ''total_substation_cost''" .
  from t pv s
  have "run_landbosse ex_env ex_master0 ex_sam_inputs = Inr results \<and>
     map_of results ''errors'' = Some (PList []) \<and>
     map_of results ''total_bos_cost'' = Some (PFloat 1) \<and>
     dict_has results ''total_substation_cost''"
    by simp
  then show ?thesis by blast
qed

text \<open>The theorem at the sample inputs, with collaborators that all succeed.\<close>

theorem development_fields_of_successful_run_witness:
  "\<exists>results. run_landbosse ex_env ex_master0 ex_sam_inputs = Inr results \<and>
     map_of results ''development_labor_usd'' = Some (PInt 0) \<and>
     map_of results ''development_material_usd'' = Some (PInt 0) \<and>
     map_of results ''development_mobilization_usd'' = Some (PInt 0) \<and>
     dict_has ex_output_dict ''Development labor cost USD'' \<and>
     map_of results ''development_equipment_rental_usd'' = Some (PFloat 1000000)"
proof -
  from ex_run_valid obtain results where
    r: "run_landbosse_state ex_env ex_master0 ex_sam_inputs =
     Inr (\<lparr>master_input_dict = dict_set ex_master_valid ''weather_window'' (PObj 2),
           output_dict = ex_output_dict, manager_calls = [''SAM_Run'']\<rparr>, results)" by blast
  have e: "map_of (master_input_dict \<lparr>master_input_dict = dict_set ex_master_valid ''weather_window'' (PObj 2),
           output_dict = ex_output_dict, manager_calls = [''SAM_Run'']\<rparr>) ''error'' = Some (PDict [])"
    using ex_valid_master_facts(1) by simp
  have dl: "dict_has ex_output_dict ''Development labor cost USD''"
    unfolding dict_has_def using ex_output_dict_lookup [of "''Development labor cost USD''"] by simp
  from development_fields_of_successful_run [OF r e] dl ex_valid_master_facts(2)
    run_landbosse_of_state [OF r]
  have "run_landbosse ex_env ex_master0 ex_sam_inputs = Inr results \<and>
     map_of results ''development_labor_usd'' = Some (PInt 0) \<and>
     map_of results ''development_material_usd'' = Some (PInt 0) \<and>
     map_of results ''development_mobilization_usd'' = Some (PInt 0) \<and>
     dict_has ex_output_dict ''Development labor cost USD'' \<and>
     map_of results ''development_equipment_rental_usd'' = Some (PFloat 1000000)"
    by simp
  then show ?thesis by blast
qed

end
